theory Spec2Isabelle
  imports Complex_Main "HOL-Library.Multiset"
begin

section \<open>IEEE 738 conductor thermal model: embedding of \<open>src/IEEE738.py\<close>\<close>

text \<open>
  The Python source computes with \<open>float\<close>; the embedding idealises a float as a
  \<^typ>\<open>real\<close> (no rounding, no overflow, no NaN) and a Python \<open>int\<close> as an
  \<^typ>\<open>int\<close>. Everything else is kept: an exception is a value \<open>Inl e\<close> of a sum
  type, a bare \<open>try: ... except:\<close> is the case distinction on that sum, and the complex
  numbers that Python's \<open>pow\<close> produces for a negative base with a fractional exponent
  are values of their own.
\<close>

subsection \<open>Exceptions\<close>

datatype error = ZeroDivisionError | ValueError | TypeError

subsection \<open>Steady-state thermal rating\<close>

text \<open>\<open>a / b\<close> on floats raises \<open>ZeroDivisionError\<close> for a zero divisor.\<close>

definition py_div :: "real \<Rightarrow> real \<Rightarrow> error + real" where
  "py_div a b = (if b = 0 then Inl ZeroDivisionError else Inr (a / b))"

text \<open>\<open>math.sqrt\<close> raises \<open>ValueError\<close> (math domain error) below zero.\<close>

definition py_sqrt :: "real \<Rightarrow> error + real" where
  "py_sqrt x = (if x < 0 then Inl ValueError else Inr (sqrt x))"

text \<open>The body of the \<open>try\<close> block: \<open>I = sqrt( ( q_c + q_r - q_s ) / ( R_T_avg ) )\<close>.\<close>

definition thermal_rating_try :: "real \<Rightarrow> real \<Rightarrow> real \<Rightarrow> real \<Rightarrow> error + real" where
  "thermal_rating_try q_c q_r q_s R_T_avg =
     (case py_div (q_c + q_r - q_s) R_T_avg of
        Inl e \<Rightarrow> Inl e
      | Inr x \<Rightarrow> py_sqrt x)"

text \<open>The bare \<open>except:\<close> turns every exception of the body into \<open>I = 0\<close>.\<close>

definition steady_state_thermal_rating :: "real \<Rightarrow> real \<Rightarrow> real \<Rightarrow> real \<Rightarrow> real" where
  "steady_state_thermal_rating q_c q_r q_s R_T_avg =
     (case thermal_rating_try q_c q_r q_s R_T_avg of
        Inl e \<Rightarrow> 0
      | Inr I \<Rightarrow> I)"

subsection \<open>Conductor heat capacity\<close>

text \<open>
  \<open>mC_p = 0; for mC in list(zip(m_i, C_pi)): mC_p += mC[0] * mC[1]\<close>. Python's
  \<open>zip\<close> stops at the shorter list, as \<^const>\<open>zip\<close> does. The element type is
  left open: the same code runs on ints and on (idealised) floats.
\<close>

definition conductor_heat_capacity :: "'a::comm_semiring_0 list \<Rightarrow> 'a list \<Rightarrow> 'a" where
  "conductor_heat_capacity m_i C_pi =
     fold (\<lambda>mC mC_p. mC_p + fst mC * snd mC) (zip m_i C_pi) 0"

subsection \<open>Calendar: \<open>datetime\<close> and \<open>day_of_year\<close>\<close>

text \<open>
  \<open>datetime(year, month, day)\<close> and the subtraction of two datetimes belong to Python's
  standard library. They are modelled after \<open>Lib/_pydatetime.py\<close>: the proleptic
  Gregorian ordinal of a date, and the \<open>days\<close> of a difference as the difference of the
  ordinals (both operands are at midnight).
\<close>

record datetime =
  year :: int
  month :: int
  day :: int

definition is_leap :: "int \<Rightarrow> bool" where
  "is_leap y = (y mod 4 = 0 \<and> (y mod 100 \<noteq> 0 \<or> y mod 400 = 0))"

definition days_in_month :: "int \<Rightarrow> int \<Rightarrow> int" where
  "days_in_month y m =
     (if m = 2 then (if is_leap y then 29 else 28)
      else if m = 4 \<or> m = 6 \<or> m = 9 \<or> m = 11 then 30 else 31)"

definition days_before_year :: "int \<Rightarrow> int" where
  "days_before_year y = (y - 1) * 365 + (y - 1) div 4 - (y - 1) div 100 + (y - 1) div 400"

definition days_before_month :: "int \<Rightarrow> int \<Rightarrow> int" where
  "days_before_month y m =
     [0, 0, 31, 59, 90, 120, 151, 181, 212, 243, 273, 304, 334] ! nat m
       + (if m > 2 \<and> is_leap y then 1 else 0)"

definition ymd2ord :: "int \<Rightarrow> int \<Rightarrow> int \<Rightarrow> int" where
  "ymd2ord y m d = days_before_year y + days_before_month y m + d"

text \<open>The constructor checks its fields and raises \<open>ValueError\<close> otherwise.\<close>

definition mk_datetime :: "int \<Rightarrow> int \<Rightarrow> int \<Rightarrow> error + datetime" where
  "mk_datetime y m d =
     (if 1 \<le> y \<and> y \<le> 9999 \<and> 1 \<le> m \<and> m \<le> 12 \<and> 1 \<le> d \<and> d \<le> days_in_month y m
      then Inr \<lparr>year = y, month = m, day = d\<rparr>
      else Inl ValueError)"

text \<open>\<open>N = ( date - datetime( date.year, 1, 1 ) ).days\<close>\<close>

definition day_of_year :: "datetime \<Rightarrow> int" where
  "day_of_year date =
     ymd2ord (year date) (month date) (day date) - ymd2ord (year date) 1 1"

definition radians :: "real \<Rightarrow> real" where
  "radians x = x * pi / 180"

definition degrees :: "real \<Rightarrow> real" where
  "degrees x = x * 180 / pi"

text \<open>\<open>delta = 23.46 * sin( radians( ( 284 + N ) * 360 / 365 ) )\<close>\<close>

definition solar_declination :: "int \<Rightarrow> real" where
  "solar_declination N = 23.46 * sin (radians (real_of_int ((284 + N) * 360) / 365))"

text \<open>
  The conventional day number of a date, in the words of the docstring of
  \<open>day_of_year\<close> (January 21 is 21, the solstices are 172 and 355): the lengths of the
  months before, plus the day of the month.
\<close>

definition ordinal_date :: "int \<Rightarrow> int \<Rightarrow> int \<Rightarrow> int" where
  "ordinal_date y m d = (\<Sum>k \<leftarrow> [1..<nat m]. days_in_month y (int k)) + d"

subsection \<open>Python numbers: floats and complex numbers\<close>

text \<open>
  The builtin \<open>pow(x, y)\<close> on floats returns a complex number when \<open>x\<close> is negative
  and \<open>y\<close> is not an integer, and complex numbers then spread through \<open>*\<close>, \<open>+\<close>
  and \<open>/\<close>. A complex number cannot be ordered: \<open>max\<close> raises \<open>TypeError\<close> on it.
\<close>

datatype pynum = PyFloat real | PyComplex complex

fun as_complex :: "pynum \<Rightarrow> complex" where
  "as_complex (PyFloat x) = complex_of_real x"
| "as_complex (PyComplex z) = z"

fun py_mul :: "pynum \<Rightarrow> pynum \<Rightarrow> pynum" where
  "py_mul (PyFloat x) (PyFloat y) = PyFloat (x * y)"
| "py_mul a b = PyComplex (as_complex a * as_complex b)"

fun py_add :: "pynum \<Rightarrow> pynum \<Rightarrow> pynum" where
  "py_add (PyFloat x) (PyFloat y) = PyFloat (x + y)"
| "py_add a b = PyComplex (as_complex a + as_complex b)"

fun py_truediv :: "pynum \<Rightarrow> pynum \<Rightarrow> error + pynum" where
  "py_truediv (PyFloat x) (PyFloat y) =
     (if y = 0 then Inl ZeroDivisionError else Inr (PyFloat (x / y)))"
| "py_truediv a b =
     (if as_complex b = 0 then Inl ZeroDivisionError
      else Inr (PyComplex (as_complex a / as_complex b)))"

definition is_integral :: "real \<Rightarrow> bool" where
  "is_integral e = (e = of_int \<lfloor>e\<rfloor>)"

text \<open>
  \<open>pow(x, e)\<close> with a float exponent \<open>e\<close> (CPython's \<open>float_pow\<close> and
  \<open>_Py_c_pow\<close>): zero to a negative power raises; a negative float to a fractional
  power is \<open>|x|**e * (cos(pi*e) + sin(pi*e)j)\<close>; a complex base is raised in polar form.
\<close>

fun py_pow :: "pynum \<Rightarrow> real \<Rightarrow> error + pynum" where
  "py_pow (PyFloat x) e =
     (if e = 0 then Inr (PyFloat 1)
      else if x = 0 then (if e < 0 then Inl ZeroDivisionError else Inr (PyFloat 0))
      else if x < 0 then
        (if is_integral e then Inr (PyFloat (x powi \<lfloor>e\<rfloor>))
         else Inr (PyComplex (complex_of_real (\<bar>x\<bar> powr e) * cis (pi * e))))
      else Inr (PyFloat (x powr e)))"
| "py_pow (PyComplex z) e =
     (if e = 0 then Inr (PyComplex 1)
      else if z = 0 then (if e < 0 then Inl ZeroDivisionError else Inr (PyComplex 0))
      else Inr (PyComplex (complex_of_real (cmod z powr e) * cis (Arg z * e))))"

text \<open>\<open>max(a, b)\<close> is \<open>b if b > a else a\<close>; the comparison needs two real numbers.\<close>

fun py_max :: "pynum \<Rightarrow> pynum \<Rightarrow> error + real" where
  "py_max (PyFloat a) (PyFloat b) = Inr (if b > a then b else a)"
| "py_max a b = Inl TypeError"

text \<open>Sequencing: an exception of the first computation skips the rest.\<close>

definition and_then :: "error + 'a \<Rightarrow> ('a \<Rightarrow> error + 'b) \<Rightarrow> error + 'b" where
  "and_then m f = (case m of Inl e \<Rightarrow> Inl e | Inr x \<Rightarrow> f x)"

subsection \<open>Convection heat loss\<close>

definition temperature_boundary_layer :: "real \<Rightarrow> real \<Rightarrow> real" where
  "temperature_boundary_layer T_s T_a = (T_s + T_a) / 2"

text \<open>\<open>rho_f = ( 1.293 - 1.525e-4 * H_e + 6.379e-9 * pow( H_e, 2 ) ) / ( 1 + 0.00367 * T_film )\<close>\<close>

definition air_density :: "real \<Rightarrow> real \<Rightarrow> error + real" where
  "air_density H_e T_film =
     py_div (1.293 - 0.0001525 * H_e + 0.000000006379 * H_e ^ 2) (1 + 0.00367 * T_film)"

text \<open>\<open>mu_f = ( 1.458e-6 * pow( ( T_film + 273 ), 1.5 ) ) / ( T_film + 383.4 )\<close>\<close>

definition air_viscosity :: "real \<Rightarrow> error + pynum" where
  "air_viscosity T_film =
     and_then (py_pow (PyFloat (T_film + 273)) 1.5) (\<lambda>p.
       py_truediv (py_mul (PyFloat 0.000001458) p) (PyFloat (T_film + 383.4)))"

text \<open>\<open>k_f = 2.424e-2 + 7.477e-5 * T_film - 4.407e-9 * pow( T_film, 2 )\<close>\<close>

definition air_thermal_conductivity_coefficient :: "real \<Rightarrow> real" where
  "air_thermal_conductivity_coefficient T_film =
     0.02424 + 0.00007477 * T_film - 0.000000004407 * T_film ^ 2"

definition wind_direction_factor :: "real \<Rightarrow> real" where
  "wind_direction_factor phi =
     1.194 - cos (radians phi) + 0.194 * cos (radians (2 * phi))
       + 0.368 * sin (radians (2 * phi))"

text \<open>\<open>N_Re = D_o * rho_f * V_w / mu_f\<close>, not inside any \<open>try\<close>.\<close>

definition reynolds_number :: "real \<Rightarrow> real \<Rightarrow> real \<Rightarrow> pynum \<Rightarrow> error + pynum" where
  "reynolds_number D_o rho_f V_w mu_f = py_truediv (PyFloat (D_o * rho_f * V_w)) mu_f"

text \<open>
  \<open>q_cn = 3.645 * pow( rho_f, 0.5 ) * pow( D_o, 0.75 ) * pow( ( T_s - T_a ), 1.25 )\<close>
\<close>

definition natural_convection_heat_loss :: "real \<Rightarrow> real \<Rightarrow> real \<Rightarrow> real \<Rightarrow> error + pynum" where
  "natural_convection_heat_loss rho_f D_o T_s T_a =
     and_then (py_pow (PyFloat rho_f) 0.5) (\<lambda>a.
     and_then (py_pow (PyFloat D_o) 0.75) (\<lambda>b.
     and_then (py_pow (PyFloat (T_s - T_a)) 1.25) (\<lambda>c.
       Inr (py_mul (py_mul (py_mul (PyFloat 3.645) a) b) c))))"

text \<open>
  \<open>q_cf1\<close> and \<open>q_cf2\<close> are computed before the \<open>try\<close>; only
  \<open>max( q_cf1, q_cf2 )\<close> is guarded, and its failure gives \<open>q_cf = 0\<close>.
\<close>

definition forced_convection_heat_loss ::
    "real \<Rightarrow> pynum \<Rightarrow> real \<Rightarrow> real \<Rightarrow> real \<Rightarrow> error + real" where
  "forced_convection_heat_loss K_angle N_Re k_f T_s T_a =
     and_then (py_pow N_Re 0.52) (\<lambda>p1.
       let q_cf1 = py_mul (py_mul (py_mul (PyFloat K_angle)
                     (py_add (PyFloat 1.01) (py_mul (PyFloat 1.35) p1)))
                     (PyFloat k_f)) (PyFloat (T_s - T_a))
       in and_then (py_pow N_Re 0.6) (\<lambda>p2.
       let q_cf2 = py_mul (py_mul (py_mul (PyFloat (K_angle * 0.754)) p2)
                     (PyFloat k_f)) (PyFloat (T_s - T_a))
       in Inr (case py_max q_cf1 q_cf2 of Inl e \<Rightarrow> 0 | Inr q_cf \<Rightarrow> q_cf)))"

text \<open>
  The air properties, the natural and the forced convection are computed first; the
  \<open>try\<close> covers \<open>q_c = max( q_cf, q_cn )\<close> alone.
\<close>

definition convection_heat_loss ::
    "real \<Rightarrow> real \<Rightarrow> real \<Rightarrow> real \<Rightarrow> real \<Rightarrow> real \<Rightarrow> error + real" where
  "convection_heat_loss T_s T_a H_e D_o phi V_w =
     (let T_film = temperature_boundary_layer T_s T_a in
      and_then (air_density H_e T_film) (\<lambda>rho_f.
      and_then (air_viscosity T_film) (\<lambda>mu_f.
      let k_f = air_thermal_conductivity_coefficient T_film in
      and_then (natural_convection_heat_loss rho_f D_o T_s T_a) (\<lambda>q_cn.
      let K_angle = wind_direction_factor phi in
      and_then (reynolds_number D_o rho_f V_w mu_f) (\<lambda>N_Re.
      and_then (forced_convection_heat_loss K_angle N_Re k_f T_s T_a) (\<lambda>q_cf.
        Inr (case py_max (PyFloat q_cf) q_cn of Inl e \<Rightarrow> 0 | Inr q_c \<Rightarrow> q_c)))))))"

subsection \<open>Radiated heat loss and electrical resistance\<close>

definition radiated_heat_loss :: "real \<Rightarrow> real \<Rightarrow> real \<Rightarrow> real \<Rightarrow> real" where
  "radiated_heat_loss D_o epsilon T_s T_a =
     17.8 * D_o * epsilon * (((T_s + 273) / 100) ^ 4 - ((T_a + 273) / 100) ^ 4)"

definition conductor_electrical_resistance :: "real \<Rightarrow> real \<Rightarrow> real \<Rightarrow> real \<Rightarrow> real" where
  "conductor_electrical_resistance R_0 T_0 alpha_T T_avg =
     R_0 * (1 + alpha_T * (T_avg - T_0))"

subsection \<open>Solar heat gain\<close>

text \<open>\<open>math.asin\<close> and \<open>math.acos\<close> raise \<open>ValueError\<close> outside \<open>[-1, 1]\<close>.\<close>

definition py_asin :: "real \<Rightarrow> error + real" where
  "py_asin x = (if - 1 \<le> x \<and> x \<le> 1 then Inr (arcsin x) else Inl ValueError)"

definition py_acos :: "real \<Rightarrow> error + real" where
  "py_acos x = (if - 1 \<le> x \<and> x \<le> 1 then Inr (arccos x) else Inl ValueError)"

definition elevation_correction_factor :: "real \<Rightarrow> real" where
  "elevation_correction_factor H_e = 1 + 0.0001148 * H_e + (- 0.00000001108) * H_e ^ 2"

definition hour_angle :: "real \<Rightarrow> real" where
  "hour_angle hour = 15 * (hour - 12)"

text \<open>
  \<open>altitude_sun\<close> in two steps: \<open>sun_altitude_angle\<close> is its first statement
  \<open>H_c = degrees( asin( ... ) )\<close>, the altitude as computed, and \<open>altitude_sun\<close>
  adds its second statement \<open>if ( H_c < 0 ): H_c = 0\<close>.
\<close>

definition sun_altitude_angle :: "real \<Rightarrow> real \<Rightarrow> real \<Rightarrow> error + real" where
  "sun_altitude_angle lat delta omega =
     and_then (py_asin (cos (radians lat) * cos (radians delta) * cos (radians omega)
                         + sin (radians lat) * sin (radians delta)))
       (\<lambda>a. Inr (degrees a))"

definition altitude_sun :: "real \<Rightarrow> real \<Rightarrow> real \<Rightarrow> error + real" where
  "altitude_sun lat delta omega =
     and_then (sun_altitude_angle lat delta omega)
       (\<lambda>H_c. Inr (if H_c < 0 then 0 else H_c))"

text \<open>The two coefficient tuples \<open>A, ..., G\<close> are the ones written in the source.\<close>

definition total_heat_flux_density :: "real \<Rightarrow> bool \<Rightarrow> real" where
  "total_heat_flux_density H_c industrial_atmosphere =
     (if industrial_atmosphere
      then 53.1821 + 14.2110 * H_c + 0.66138 * H_c ^ 2 + (- 0.031658) * H_c ^ 3
             + 0.00054654 * H_c ^ 4 + 0.0000043446 * H_c ^ 5 + 0.000000013236 * H_c ^ 6
      else - 42.2391 + 63.8044 * H_c + (- 1.9220) * H_c ^ 2 + 0.0346921 * H_c ^ 3
             + (- 0.000361118) * H_c ^ 4 + 0.00000194318 * H_c ^ 5
             + (- 0.00000000407608) * H_c ^ 6)"

definition total_heat_flux_intensity :: "real \<Rightarrow> real \<Rightarrow> real" where
  "total_heat_flux_intensity K_solar Q_s = K_solar * Q_s"

definition azimuth_variable :: "real \<Rightarrow> real \<Rightarrow> real \<Rightarrow> error + real" where
  "azimuth_variable omega lat delta =
     py_div (sin (radians omega))
       (sin (radians lat) * cos (radians omega) - cos (radians lat) * tan (radians delta))"

definition azimuth_constant :: "real \<Rightarrow> real \<Rightarrow> real" where
  "azimuth_constant omega ji =
     (if - 180 \<le> omega \<and> omega < 0 \<and> ji \<ge> 0 then 0
      else if 0 \<le> omega \<and> omega < 180 \<and> ji < 0 then 360
      else 180)"

definition azimuth :: "real \<Rightarrow> real \<Rightarrow> real" where
  "azimuth C ji = C + degrees (arctan ji)"

definition solar_rays_incidence_angle :: "real \<Rightarrow> real \<Rightarrow> real \<Rightarrow> error + real" where
  "solar_rays_incidence_angle H_c Z_c Z_l =
     and_then (py_acos (cos (radians H_c) * cos (radians (Z_c - Z_l))))
       (\<lambda>a. Inr (degrees a))"

definition solar_heat_gain ::
    "int \<Rightarrow> int \<Rightarrow> int \<Rightarrow> real \<Rightarrow> real \<Rightarrow> real \<Rightarrow> bool \<Rightarrow> real \<Rightarrow> real \<Rightarrow> real \<Rightarrow> error + real" where
  "solar_heat_gain y m d hour H_e lat industrial_atmosphere Z_l D_o alpha =
     and_then (mk_datetime y m d) (\<lambda>date.
     let K_solar = elevation_correction_factor H_e;
         N = day_of_year date;
         delta = solar_declination N;
         omega = hour_angle hour
     in and_then (altitude_sun lat delta omega) (\<lambda>H_c.
     let Q_s = total_heat_flux_density H_c industrial_atmosphere;
         Q_se = total_heat_flux_intensity K_solar Q_s
     in and_then (azimuth_variable omega lat delta) (\<lambda>ji.
     let C = azimuth_constant omega ji;
         Z_c = azimuth C ji
     in and_then (solar_rays_incidence_angle H_c Z_c Z_l) (\<lambda>theta.
     let A = D_o;
         q_s = alpha * Q_se * sin (radians theta) * A
     in Inr (if q_s < 0 then 0 else q_s)))))"

subsection \<open>Steady-state conductor temperature: the modified secant iteration\<close>

text \<open>
  The solver and the two transient functions take the same seventeen positional
  arguments for the weather, the conductor and the date; the record carries them so that
  the functions below stay readable. \<open>imax\<close> is an iteration count, an \<open>int\<close>.
\<close>

record conditions =
  p_V_w :: real
  p_phi :: real
  p_epsilon :: real
  p_alpha :: real
  p_T_a :: real
  p_D_o :: real
  p_R_0 :: real
  p_T_0 :: real
  p_alpha_T :: real
  p_Z_l :: real
  p_lat :: real
  p_industrial_atmosphere :: bool
  p_year :: int
  p_month :: int
  p_day :: int
  p_hour :: real
  p_H_e :: real

definition solar_heat_gain_at :: "conditions \<Rightarrow> error + real" where
  "solar_heat_gain_at c =
     solar_heat_gain (p_year c) (p_month c) (p_day c) (p_hour c) (p_H_e c) (p_lat c)
       (p_industrial_atmosphere c) (p_Z_l c) (p_D_o c) (p_alpha c)"

definition convection_heat_loss_at :: "conditions \<Rightarrow> real \<Rightarrow> error + real" where
  "convection_heat_loss_at c T =
     convection_heat_loss T (p_T_a c) (p_H_e c) (p_D_o c) (p_phi c) (p_V_w c)"

definition radiated_heat_loss_at :: "conditions \<Rightarrow> real \<Rightarrow> real" where
  "radiated_heat_loss_at c T = radiated_heat_loss (p_D_o c) (p_epsilon c) T (p_T_a c)"

definition conductor_electrical_resistance_at :: "conditions \<Rightarrow> real \<Rightarrow> real" where
  "conductor_electrical_resistance_at c T =
     conductor_electrical_resistance (p_R_0 c) (p_T_0 c) (p_alpha_T c) T"

text \<open>\<open>delta = 0.1\<close>, the fractional perturbation.\<close>

definition secant_delta :: real where
  "secant_delta = 0.1"

text \<open>
  One pass through the body of \<open>while True:\<close>, from \<open>T_i2 = T_i * ( 1 + delta )\<close> to
  the relative error \<open>ea\<close>: the new trial temperature and the new \<open>ea\<close>.
\<close>

definition secant_iteration ::
    "conditions \<Rightarrow> real \<Rightarrow> real \<Rightarrow> real \<Rightarrow> real \<Rightarrow> error + real \<times> real" where
  "secant_iteration c q_s I_ss T_i ea =
     (let T_i2 = T_i * (1 + secant_delta);
          R_T_i = conductor_electrical_resistance_at c T_i;
          R_T_i2 = conductor_electrical_resistance_at c T_i2
      in and_then (convection_heat_loss_at c T_i) (\<lambda>q_ci.
         and_then (convection_heat_loss_at c T_i2) (\<lambda>q_ci2.
         let q_ri = radiated_heat_loss_at c T_i;
             q_ri2 = radiated_heat_loss_at c T_i2;
             f_i = steady_state_thermal_rating q_ci q_ri q_s R_T_i - I_ss;
             f_i2 = steady_state_thermal_rating q_ci2 q_ri2 q_s R_T_i2 - I_ss;
             T_iold = T_i;
             T_new = (if f_i2 - f_i \<noteq> 0
                      then T_i - (secant_delta * T_i * f_i) / (f_i2 - f_i) else T_i);
             ea_new = (if T_new \<noteq> 0 then \<bar>(T_new - T_iold) / T_new\<bar> * 100 else ea)
         in Inr (T_new, ea_new))))"

text \<open>
  The loop: \<open>i += 1\<close>, the body, then \<open>if ea <= es or i >= imax: break\<close>. The result
  is the last trial temperature with the iteration count that the source prints.
\<close>

function ss_temperature_loop ::
    "conditions \<Rightarrow> real \<Rightarrow> real \<Rightarrow> real \<Rightarrow> int \<Rightarrow> real \<Rightarrow> real \<Rightarrow> int \<Rightarrow> error + real \<times> int" where
  "ss_temperature_loop c q_s I_ss es imax T_i ea i =
     (case secant_iteration c q_s I_ss T_i ea of
        Inl e \<Rightarrow> Inl e
      | Inr s \<Rightarrow>
          if snd s \<le> es \<or> i + 1 \<ge> imax then Inr (fst s, i + 1)
          else ss_temperature_loop c q_s I_ss es imax (fst s) (snd s) (i + 1))"
  by pat_completeness auto
termination
  by (relation "measure (\<lambda>(c, q_s, I_ss, es, imax, T_i, ea, i). nat (imax - i))") auto

definition steady_state_run :: "conditions \<Rightarrow> real \<Rightarrow> real \<Rightarrow> int \<Rightarrow> error + real \<times> int" where
  "steady_state_run c I_ss es imax =
     and_then (solar_heat_gain_at c) (\<lambda>q_s.
       ss_temperature_loop c q_s I_ss es imax (p_T_a c + 5) 100 0)"

definition steady_state_conductor_temperature ::
    "conditions \<Rightarrow> real \<Rightarrow> real \<Rightarrow> int \<Rightarrow> error + real" where
  "steady_state_conductor_temperature c I_ss es imax =
     and_then (steady_state_run c I_ss es imax) (\<lambda>r. Inr (fst r))"

text \<open>
  The iteration in the words of the specification: the residual
  \<open>f(T) = rating(...) - I_ss\<close>, the secant update with the perturbed trial
  \<open>T' = T * (1 + 0.1)\<close>, and the sequence of trial temperatures from \<open>T_a + 5\<close>.
\<close>

definition residual :: "conditions \<Rightarrow> real \<Rightarrow> real \<Rightarrow> real \<Rightarrow> error + real" where
  "residual c q_s I_ss T =
     and_then (convection_heat_loss_at c T) (\<lambda>q_c.
       Inr (steady_state_thermal_rating q_c (radiated_heat_loss_at c T) q_s
              (conductor_electrical_resistance_at c T) - I_ss))"

definition secant_update :: "conditions \<Rightarrow> real \<Rightarrow> real \<Rightarrow> real \<Rightarrow> error + real" where
  "secant_update c q_s I_ss T =
     and_then (residual c q_s I_ss T) (\<lambda>f.
     and_then (residual c q_s I_ss (T * (1 + 0.1))) (\<lambda>f'.
       Inr (if f' - f = 0 then T else T - (0.1 * T * f) / (f' - f))))"

fun trial_temperature_from :: "conditions \<Rightarrow> real \<Rightarrow> real \<Rightarrow> real \<Rightarrow> nat \<Rightarrow> error + real" where
  "trial_temperature_from c q_s I_ss T 0 = Inr T"
| "trial_temperature_from c q_s I_ss T (Suc n) =
     and_then (trial_temperature_from c q_s I_ss T n) (secant_update c q_s I_ss)"

definition trial_temperature :: "conditions \<Rightarrow> real \<Rightarrow> real \<Rightarrow> nat \<Rightarrow> error + real" where
  "trial_temperature c q_s I_ss n = trial_temperature_from c q_s I_ss (p_T_a c + 5) n"

text \<open>
  The state \<open>(T_i, ea)\<close> of the source's loop after \<open>n\<close> passes through its body,
  from a given state, and from the initial state \<open>T_i = T_a + 5\<close>, \<open>ea = 100\<close>.
\<close>

fun secant_state_from ::
    "conditions \<Rightarrow> real \<Rightarrow> real \<Rightarrow> real \<times> real \<Rightarrow> nat \<Rightarrow> error + real \<times> real" where
  "secant_state_from c q_s I_ss s 0 = Inr s"
| "secant_state_from c q_s I_ss s (Suc n) =
     and_then (secant_state_from c q_s I_ss s n)
       (\<lambda>s'. secant_iteration c q_s I_ss (fst s') (snd s'))"

definition secant_state :: "conditions \<Rightarrow> real \<Rightarrow> real \<Rightarrow> nat \<Rightarrow> error + real \<times> real" where
  "secant_state c q_s I_ss n = secant_state_from c q_s I_ss (p_T_a c + 5, 100) n"

subsection \<open>Transient conductor temperature\<close>

text \<open>\<open>dT = ( ( R_T_avg * I**2 + q_s -q_c - q_r ) / ( mC_p ) ) * ( dt )\<close>\<close>

definition delta_T ::
    "real \<Rightarrow> real \<Rightarrow> real \<Rightarrow> real \<Rightarrow> real \<Rightarrow> real \<Rightarrow> real \<Rightarrow> error + real" where
  "delta_T R_T_avg I q_s q_c q_r mC_p dt =
     and_then (py_div (R_T_avg * I ^ 2 + q_s - q_c - q_r) mC_p) (\<lambda>x. Inr (x * dt))"

text \<open>\<open>dt = ( ( mC_p ) / ( R_T_avg * I**2 + q_s -q_c - q_r ) ) * ( dT )\<close>\<close>

definition delta_t ::
    "real \<Rightarrow> real \<Rightarrow> real \<Rightarrow> real \<Rightarrow> real \<Rightarrow> real \<Rightarrow> real \<Rightarrow> error + real" where
  "delta_t R_T_avg I q_s q_c q_r mC_p dT =
     and_then (py_div mC_p (R_T_avg * I ^ 2 + q_s - q_c - q_r)) (\<lambda>x. Inr (x * dT))"

text \<open>\<open>int(trunc(x))\<close>: rounding towards zero.\<close>

definition py_trunc :: "real \<Rightarrow> int" where
  "py_trunc x = (if 0 \<le> x then \<lfloor>x\<rfloor> else \<lceil>x\<rceil>)"

text \<open>
  The \<open>for delta_t in nt:\<close> loop (its variable is \<open>step\<close> here, the name
  \<open>delta_t\<close> being the function above). The list \<open>T\<close> starts as \<open>[T_i]\<close> and only
  grows, so \<open>T[-1]\<close> is its last element.
\<close>

fun temperature_steps ::
    "conditions \<Rightarrow> real \<Rightarrow> real \<Rightarrow> real \<Rightarrow> real list \<Rightarrow> real list \<Rightarrow> error + real list" where
  "temperature_steps c q_s I_f mC_p [] T = Inr T"
| "temperature_steps c q_s I_f mC_p (step # nt) T =
     (let R_T_i = conductor_electrical_resistance_at c (last T) in
      and_then (convection_heat_loss_at c (last T)) (\<lambda>q_c_i.
      let q_r_i = radiated_heat_loss_at c (last T) in
      and_then (delta_T R_T_i I_f q_s q_c_i q_r_i mC_p step) (\<lambda>dT.
        temperature_steps c q_s I_f mC_p nt (T @ [last T + dT]))))"

text \<open>
  Two float operations of the transient functions decide a discrete outcome: the
  quotient \<open>time / dt\<close>, whose truncation is the number of steps, and the sum
  \<open>T += dT\<close>, whose growth ends the \<open>while\<close> loop. Rounding can change both, so
  they are parameters of the model: \<open>fdiv\<close> and \<open>fadd\<close> are the operations as the
  machine computes them, \<^term>\<open>(/) :: real \<Rightarrow> real \<Rightarrow> real\<close> and
  \<^term>\<open>(+) :: real \<Rightarrow> real \<Rightarrow> real\<close> in exact arithmetic, the rounded quotient
  and the rounded sum in doubles. A zero divisor raises whatever the rounding is.
\<close>

definition py_float_div :: "(real \<Rightarrow> real \<Rightarrow> real) \<Rightarrow> real \<Rightarrow> real \<Rightarrow> error + real" where
  "py_float_div fdiv a b = (if b = 0 then Inl ZeroDivisionError else Inr (fdiv a b))"

definition transient_conductor_temperature ::
    "(real \<Rightarrow> real \<Rightarrow> real) \<Rightarrow> real \<Rightarrow> real \<Rightarrow> real \<Rightarrow> real \<Rightarrow> real \<Rightarrow> conditions \<Rightarrow> real \<Rightarrow> int
       \<Rightarrow> error + real list" where
  "transient_conductor_temperature fdiv I_i I_f dt time mC_p c es imax =
     and_then (steady_state_conductor_temperature c I_i es imax) (\<lambda>T_i.
     and_then (solar_heat_gain_at c) (\<lambda>q_s.
     and_then (py_float_div fdiv time dt) (\<lambda>x.
     let n = py_trunc x;
         nt = replicate (nat n) dt
     in temperature_steps c q_s I_f mC_p nt [T_i])))"

subsection \<open>Transient settling time\<close>

text \<open>
  The first four statements of the loop body, which compute \<open>dt\<close> at the running
  temperature \<open>T\<close>: the resistance, the convection loss, the radiated loss,
  \<open>delta_t\<close>.
\<close>

definition settling_step ::
    "conditions \<Rightarrow> real \<Rightarrow> real \<Rightarrow> real \<Rightarrow> real \<Rightarrow> real \<Rightarrow> error + real" where
  "settling_step c q_s I_f mC_p dT T =
     (let R_T_i = conductor_electrical_resistance_at c T in
      and_then (convection_heat_loss_at c T) (\<lambda>q_c_i.
      let q_r_i = radiated_heat_loss_at c T in
      delta_t R_T_i I_f q_s q_c_i q_r_i mC_p dT))"

text \<open>
  The \<open>while T <= T_f :\<close> loop has no bound of its own, so it is a partial function:
  \<open>None\<close> is a run that never leaves the loop, \<open>Some (Inl e)\<close> a run that raises,
  \<open>Some (Inr Time)\<close> a run that returns. \<open>T += dT\<close> and \<open>Time += dt\<close> are the
  sums \<open>fadd\<close> computes.
\<close>

partial_function (option) settling_loop ::
    "(real \<Rightarrow> real \<Rightarrow> real) \<Rightarrow> conditions \<Rightarrow> real \<Rightarrow> real \<Rightarrow> real \<Rightarrow> real \<Rightarrow> real \<Rightarrow> real \<Rightarrow> real
       \<Rightarrow> (error + real) option" where
  "settling_loop fadd c q_s I_f mC_p dT T_f T Time =
     (if T \<le> T_f then
        (case settling_step c q_s I_f mC_p dT T of
           Inl e \<Rightarrow> Some (Inl e)
         | Inr dt \<Rightarrow> settling_loop fadd c q_s I_f mC_p dT T_f (fadd T dT) (fadd Time dt))
      else Some (Inr Time))"

definition transient_settling_time ::
    "(real \<Rightarrow> real \<Rightarrow> real) \<Rightarrow> real \<Rightarrow> real \<Rightarrow> real \<Rightarrow> real \<Rightarrow> conditions \<Rightarrow> real \<Rightarrow> int
       \<Rightarrow> (error + real) option" where
  "transient_settling_time fadd I_i I_f dT mC_p c es imax =
     (case steady_state_conductor_temperature c I_i es imax of
        Inl e \<Rightarrow> Some (Inl e)
      | Inr T_i \<Rightarrow>
     (case steady_state_conductor_temperature c I_f es imax of
        Inl e \<Rightarrow> Some (Inl e)
      | Inr T_f \<Rightarrow>
     (case solar_heat_gain_at c of
        Inl e \<Rightarrow> Some (Inl e)
      | Inr q_s \<Rightarrow> settling_loop fadd c q_s I_f mC_p dT T_f T_i 0)))"

text \<open>
  A double \<open>x\<close> with \<open>32 \<le> |x| < 64\<close> has 53 significant bits, the last one worth
  \<open>2^-47\<close>. For a sum in that range the double addition is therefore the exact sum
  rounded to the nearest multiple of \<open>2^-47\<close>. (\<^const>\<open>round\<close> rounds a tie upwards,
  the machine to the even neighbour; the runs below meet no tie.)
\<close>

definition double_add_32_64 :: "real \<Rightarrow> real \<Rightarrow> real" where
  "double_add_32_64 a b = real_of_int (round ((a + b) * 2 ^ 47)) / 2 ^ 47"

text \<open>
  Likewise a double quotient with \<open>2 \<le> |x| < 4\<close> is the exact quotient rounded to the
  nearest multiple of \<open>2^-51\<close>.
\<close>

definition double_div_2_4 :: "real \<Rightarrow> real \<Rightarrow> real" where
  "double_div_2_4 a b = real_of_int (round (a / b * 2 ^ 51)) / 2 ^ 51"

subsection \<open>A scenario for concrete runs\<close>

text \<open>
  The specification's concrete scenario (sea level, latitude 30, clear atmosphere, a
  10 mm conductor with emissivity and absorptivity 0.5, azimuth 90, wind 0.61 m/s at 90
  degrees, 40 degrees ambient, resistance given at 25 degrees with coefficient 0.00403),
  at midnight of 23 March 2023, where the solar geometry has closed forms.
\<close>

definition example_conditions :: conditions where
  "example_conditions =
     \<lparr>p_V_w = 0.61, p_phi = 90, p_epsilon = 0.5, p_alpha = 0.5, p_T_a = 40, p_D_o = 0.01,
      p_R_0 = 0.00007283, p_T_0 = 25, p_alpha_T = 0.00403, p_Z_l = 90, p_lat = 30,
      p_industrial_atmosphere = False, p_year = 2023, p_month = 3, p_day = 23, p_hour = 0,
      p_H_e = 0\<rparr>"

text \<open>
  A winter night with no radiation exchange and a resistance that does not depend on the
  temperature: 60 degrees below zero ambient, emissivity 0, \<open>alpha_T = 0\<close>,
  \<open>R_0 = 0.0001\<close>. The trial temperatures of the solver are negative here, and below
  ambient the convection loss is 0, so that its runs have closed forms.
\<close>

definition cold_conditions :: conditions where
  "cold_conditions =
     example_conditions\<lparr>p_T_a := - 60, p_epsilon := 0, p_alpha_T := 0, p_R_0 := 0.0001\<rparr>"

section \<open>Properties\<close>

subsection \<open>Steady-state thermal rating\<close>

lemma thermal_rating_try_cases:
  "thermal_rating_try q_c q_r q_s R =
     (if R = 0 then Inl ZeroDivisionError
      else if (q_c + q_r - q_s) / R < 0 then Inl ValueError
      else Inr (sqrt ((q_c + q_r - q_s) / R)))"
  by (simp add: thermal_rating_try_def py_div_def py_sqrt_def)

text \<open>
  Claim C3. \<open>steady_state_thermal_rating\<close> never raises: its result is a number for
  every input. When \<open>R_T_avg\<close> is zero (the division raises) or the radicand
  \<open>(q_c + q_r - q_s) / R_T_avg\<close> is negative (the square root raises) the handler
  returns 0; otherwise the result is the square root of the radicand.
\<close>

theorem steady_state_thermal_rating_total:
  "steady_state_thermal_rating q_c q_r q_s R_T_avg =
     (if R_T_avg = 0 \<or> (q_c + q_r - q_s) / R_T_avg < 0 then 0
      else sqrt ((q_c + q_r - q_s) / R_T_avg))"
  by (simp add: steady_state_thermal_rating_def thermal_rating_try_cases)

subsection \<open>Conductor heat capacity\<close>

lemma fold_heat_capacity:
  "fold (\<lambda>mC mC_p. mC_p + fst mC * snd mC) ps (acc::'a::comm_semiring_0) = acc + (\<Sum>mC \<leftarrow> ps. fst mC * snd mC)"
  by (induction ps arbitrary: acc) (simp_all add: add.assoc)

lemma heat_capacity_as_sum_list:
  "conductor_heat_capacity m_i C_pi = (\<Sum>mC \<leftarrow> zip m_i C_pi. fst mC * snd mC)"
  by (simp add: conductor_heat_capacity_def fold_heat_capacity)

lemma sum_list_zip_nth:
  assumes "length xs = length ys"
  shows "(\<Sum>mC \<leftarrow> zip xs ys. fst mC * snd mC) = (\<Sum>i \<leftarrow> [0..<length xs]. xs ! i * ys ! (i::nat) :: 'a::comm_semiring_0)"
proof -
  have "zip xs ys = map (\<lambda>i. (xs ! i, ys ! i)) [0..<length xs]"
    using assms by (intro nth_equalityI) simp_all
  then show ?thesis by (simp add: comp_def)
qed

lemma zip_map_nth: "zip (map ((!) xs) p) (map ((!) ys) p) = map (\<lambda>i. (xs ! i, ys ! i)) p"
  by (induction p) simp_all

text \<open>
  Claim C8. For lists of equal length \<open>conductor_heat_capacity\<close> is the sum of the
  elementwise products, for two layers \<open>m1 * c1 + m2 * c2\<close>, and reordering both
  lists by the same permutation \<open>p\<close> of the indices leaves the result unchanged.
\<close>

theorem conductor_heat_capacity_sum:
  fixes m_i C_pi :: "'a::comm_semiring_0 list"
  assumes "length m_i = length C_pi" and "mset p = mset [0..<length m_i]"
  shows "conductor_heat_capacity m_i C_pi = (\<Sum>i<length m_i. m_i ! i * C_pi ! i)
       \<and> conductor_heat_capacity [m1, m2] [c1, c2] = m1 * c1 + m2 * c2
       \<and> conductor_heat_capacity (map ((!) m_i) p) (map ((!) C_pi) p) = conductor_heat_capacity m_i C_pi"
proof (intro conjI)
  have a: "conductor_heat_capacity m_i C_pi = (\<Sum>i \<leftarrow> [0..<length m_i]. m_i ! i * C_pi ! i)"
    using assms(1) by (simp add: heat_capacity_as_sum_list sum_list_zip_nth)
  then show "conductor_heat_capacity m_i C_pi = (\<Sum>i<length m_i. m_i ! i * C_pi ! i)"
    by (simp add: sum_list_sum_nth atLeast0LessThan)
  show "conductor_heat_capacity [m1, m2] [c1, c2] = m1 * c1 + m2 * c2"
    by (simp add: conductor_heat_capacity_def)
  have "conductor_heat_capacity (map ((!) m_i) p) (map ((!) C_pi) p) = (\<Sum>i \<leftarrow> p. m_i ! i * C_pi ! i)"
    by (simp add: heat_capacity_as_sum_list zip_map_nth comp_def)
  also have "\<dots> = sum_mset (image_mset (\<lambda>i. m_i ! i * C_pi ! i) (mset p))"
    by (metis mset_map sum_mset_sum_list)
  also have "\<dots> = (\<Sum>i \<leftarrow> [0..<length m_i]. m_i ! i * C_pi ! i)"
    unfolding assms(2) by (metis mset_map sum_mset_sum_list)
  finally show "conductor_heat_capacity (map ((!) m_i) p) (map ((!) C_pi) p) = conductor_heat_capacity m_i C_pi"
    using a by simp
qed

theorem conductor_heat_capacity_sum_witness:
  "length [2, 3, 5 :: int] = length [7, 11, 13 :: int] \<and> mset [2, 0, 1 :: nat] = mset [0..<length [2, 3, 5 :: int]]
   \<and> conductor_heat_capacity [2, 3, 5 :: int] [7, 11, 13] = 112
   \<and> conductor_heat_capacity [5, 2, 3 :: int] [13, 7, 11] = 112"
proof -
  have l: "length [2, 3, 5 :: int] = length [7, 11, 13 :: int]" by simp
  have p: "mset [2, 0, 1 :: nat] = mset [0..<length [2, 3, 5 :: int]]"
    by (simp add: upt_rec add_mset_commute)
  from conductor_heat_capacity_sum [OF l p, of 0 0 0 0] l p show ?thesis
    by (simp add: conductor_heat_capacity_def)
qed

subsection \<open>Day of the year\<close>

lemma days_before_month_sum:
  assumes "1 \<le> m" "m \<le> 12"
  shows "days_before_month y m = (\<Sum>k \<leftarrow> [1..<nat m]. days_in_month y (int k))"
proof -
  from assms have "m = 1 \<or> m = 2 \<or> m = 3 \<or> m = 4 \<or> m = 5 \<or> m = 6 \<or> m = 7 \<or> m = 8
    \<or> m = 9 \<or> m = 10 \<or> m = 11 \<or> m = 12" by arith
  then show ?thesis
    by (elim disjE) (simp_all add: days_before_month_def days_in_month_def upt_rec)
qed

lemma day_of_year_ordinal:
  assumes "mk_datetime y m d = Inr date"
  shows "day_of_year date = ordinal_date y m d - 1"
proof -
  from assms have m: "1 \<le> m" "m \<le> 12" and date: "date = \<lparr>year = y, month = m, day = d\<rparr>"
    by (auto simp: mk_datetime_def split: if_splits)
  have "days_before_month y 1 = 0" by (simp add: days_before_month_def)
  then show ?thesis
    using days_before_month_sum [OF m, of y]
    by (simp add: date day_of_year_def ymd2ord_def ordinal_date_def)
qed

text \<open>
  Claim C10. For a valid date \<open>day_of_year\<close> is the number of days elapsed since
  January 1 of that year: one less than the conventional day number (January 1 gives 0,
  January 21 gives 20), and that number is what \<open>solar_declination\<close> receives.
\<close>

theorem day_of_year_zero_based:
  assumes "mk_datetime y m d = Inr date"
  shows "day_of_year date = ordinal_date y m d - 1
       \<and> (m = 1 \<longrightarrow> day_of_year date = d - 1)
       \<and> solar_declination (day_of_year date)
           = 23.46 * sin (radians (real_of_int ((284 + (ordinal_date y m d - 1)) * 360) / 365))"
  using day_of_year_ordinal [OF assms]
  by (auto simp: solar_declination_def ordinal_date_def)

theorem day_of_year_zero_based_witness:
  "mk_datetime 2023 1 21 = Inr \<lparr>year = 2023, month = 1, day = 21\<rparr>
   \<and> ordinal_date 2023 1 21 = 21
   \<and> day_of_year \<lparr>year = 2023, month = 1, day = 21\<rparr> = 20
   \<and> mk_datetime 2023 6 21 = Inr \<lparr>year = 2023, month = 6, day = 21\<rparr>
   \<and> ordinal_date 2023 6 21 = 172
   \<and> day_of_year \<lparr>year = 2023, month = 6, day = 21\<rparr> = 171"
proof -
  have c: "mk_datetime 2023 1 21 = Inr \<lparr>year = 2023, month = 1, day = 21\<rparr>"
    by (simp add: mk_datetime_def days_in_month_def)
  have o: "ordinal_date 2023 1 21 = 21"
    by (simp add: ordinal_date_def)
  have c': "mk_datetime 2023 6 21 = Inr \<lparr>year = 2023, month = 6, day = 21\<rparr>"
    by (simp add: mk_datetime_def days_in_month_def)
  have o': "ordinal_date 2023 6 21 = 172"
    by (simp add: ordinal_date_def days_in_month_def is_leap_def upt_rec)
  from day_of_year_zero_based [OF c] day_of_year_zero_based [OF c'] c o c' o'
  show ?thesis by simp
qed

subsection \<open>Convection heat loss\<close>

lemma and_then_Inr [simp]: "and_then (Inr x) f = f x"
  by (simp add: and_then_def)

lemma and_then_Inl [simp]: "and_then (Inl e) f = Inl e"
  by (simp add: and_then_def)

lemma and_then_eq_Inr:
  "and_then m f = Inr y \<longleftrightarrow> (\<exists>x. m = Inr x \<and> f x = Inr y)"
  by (cases m) simp_all

lemma py_pow_positive_exponent:
  assumes "0 < e"
  shows "\<exists>v. py_pow a e = Inr v"
  using assms by (cases a) auto

lemma py_pow_consts_return:
  "\<exists>v. py_pow a 0.5 = Inr v" "\<exists>v. py_pow a 0.75 = Inr v" "\<exists>v. py_pow a 1.25 = Inr v"
  "\<exists>v. py_pow a 1.5 = Inr v" "\<exists>v. py_pow a 0.52 = Inr v" "\<exists>v. py_pow a 0.6 = Inr v"
  by (rule py_pow_positive_exponent, simp)+

lemma py_truediv_float_divisor:
  "py_truediv a (PyFloat y) =
     (if y = 0 then Inl ZeroDivisionError
      else Inr (case a of PyFloat x \<Rightarrow> PyFloat (x / y)
                | PyComplex z \<Rightarrow> PyComplex (z / complex_of_real y)))"
  by (cases a) simp_all

lemma py_pow_negative_base:
  assumes "x < 0" "\<not> is_integral e"
  shows "\<exists>z. py_pow (PyFloat x) e = Inr (PyComplex z) \<and> z \<noteq> 0"
proof -
  from assms have "e \<noteq> 0" by (auto simp: is_integral_def)
  moreover have "\<bar>x\<bar> powr e \<noteq> 0" using assms by simp
  moreover have "cis (pi * e) \<noteq> 0" by (metis cis_zero cis_neq_zero)
  ultimately show ?thesis using assms by simp
qed

declare py_pow.simps [simp del]

lemma not_integral_consts:
  "\<not> is_integral 0.5" "\<not> is_integral 0.75" "\<not> is_integral 1.25" "\<not> is_integral 1.5"
  "\<not> is_integral 0.52" "\<not> is_integral 0.6"
  by (simp_all add: is_integral_def)

lemma air_density_cases:
  "air_density H_e T_film =
     (if 1 + 0.00367 * T_film = 0 then Inl ZeroDivisionError
      else Inr ((1.293 - 0.0001525 * H_e + 0.000000006379 * H_e ^ 2) / (1 + 0.00367 * T_film)))"
  by (simp add: air_density_def py_div_def)


lemma air_viscosity_positive:
  assumes "- 273 < T_film"
  shows "air_viscosity T_film
           = Inr (PyFloat (0.000001458 * (T_film + 273) powr 1.5 / (T_film + 383.4)))"
    and "0 < 0.000001458 * (T_film + 273) powr 1.5 / (T_film + 383.4)"
  using assms by (simp_all add: air_viscosity_def py_pow.simps)

lemma air_viscosity_zero:
  "air_viscosity (- 273) = Inr (PyFloat 0)"
  by (simp add: air_viscosity_def py_pow.simps)

lemma air_viscosity_pole:
  "air_viscosity (- 383.4) = Inl ZeroDivisionError"
  by (simp add: air_viscosity_def not_integral_consts py_pow.simps)

lemma air_viscosity_complex:
  assumes "T_film < - 273" "T_film \<noteq> - 383.4"
  shows "\<exists>z. air_viscosity T_film = Inr (PyComplex z) \<and> z \<noteq> 0"
proof -
  from assms(1) obtain z where z: "py_pow (PyFloat (T_film + 273)) 1.5 = Inr (PyComplex z)" "z \<noteq> 0"
    using py_pow_negative_base [of "T_film + 273" "1.5"] not_integral_consts by auto
  define y where "y = T_film + 383.4"
  have y: "y \<noteq> 0" using assms(2) by (simp add: y_def)
  have "air_viscosity T_film = py_truediv (PyComplex (0.000001458 * z)) (PyFloat y)"
    using z by (simp add: air_viscosity_def y_def)
  also have "\<dots> = Inr (PyComplex (0.000001458 * z / complex_of_real y))"
    using y by simp
  finally have "air_viscosity T_film = Inr (PyComplex (0.000001458 * z / complex_of_real y))" .
  moreover have "0.000001458 * z / complex_of_real y \<noteq> 0"
    using z y by simp
  ultimately show ?thesis by blast
qed

lemma air_viscosity_cases:
  "air_viscosity T_film = Inl ZeroDivisionError \<and> T_film = - 383.4
   \<or> air_viscosity T_film = Inr (PyFloat 0) \<and> T_film = - 273
   \<or> (\<exists>mu. air_viscosity T_film = Inr (PyFloat mu) \<and> 0 < mu \<and> - 273 < T_film)
   \<or> (\<exists>z. air_viscosity T_film = Inr (PyComplex z) \<and> z \<noteq> 0 \<and> T_film < - 273)"
proof -
  consider "T_film = - 383.4" | "T_film = - 273" | "- 273 < T_film"
    | "T_film < - 273" "T_film \<noteq> - 383.4" by argo
  then show ?thesis
  proof cases
    case 1 then show ?thesis using air_viscosity_pole by simp
  next
    case 2 then show ?thesis using air_viscosity_zero by simp
  next
    case 3 then show ?thesis using air_viscosity_positive [OF 3] by blast
  next
    case 4 then show ?thesis using air_viscosity_complex [OF 4] by blast
  qed
qed

lemma reynolds_number_cases:
  "reynolds_number D_o rho_f V_w mu_f =
     (if as_complex mu_f = 0 then Inl ZeroDivisionError
      else Inr (case mu_f of PyFloat m \<Rightarrow> PyFloat (D_o * rho_f * V_w / m)
                | PyComplex z \<Rightarrow> PyComplex (complex_of_real (D_o * rho_f * V_w) / z)))"
  by (cases mu_f) (simp_all add: reynolds_number_def)

lemma natural_convection_returns:
  "\<exists>q. natural_convection_heat_loss rho_f D_o T_s T_a = Inr q"
proof -
  obtain a b c where "py_pow (PyFloat rho_f) 0.5 = Inr a" "py_pow (PyFloat D_o) 0.75 = Inr b"
    "py_pow (PyFloat (T_s - T_a)) 1.25 = Inr c"
    using py_pow_consts_return by meson
  then show ?thesis by (simp add: natural_convection_heat_loss_def)
qed

lemma py_mul_complex_right: "\<exists>z. py_mul a (PyComplex w) = PyComplex z"
  by (cases a) simp_all

lemma natural_convection_complex:
  assumes "T_s < T_a"
  shows "\<exists>z. natural_convection_heat_loss rho_f D_o T_s T_a = Inr (PyComplex z)"
proof -
  obtain a where a: "py_pow (PyFloat rho_f) 0.5 = Inr a"
    using py_pow_consts_return by meson
  obtain b where b: "py_pow (PyFloat D_o) 0.75 = Inr b"
    using py_pow_consts_return by meson
  from assms obtain w where w: "py_pow (PyFloat (T_s - T_a)) 1.25 = Inr (PyComplex w)"
    using py_pow_negative_base [of "T_s - T_a" "1.25"] not_integral_consts by auto
  from a b w show ?thesis
    using py_mul_complex_right by (simp add: natural_convection_heat_loss_def)
qed

lemma forced_convection_returns:
  "\<exists>q. forced_convection_heat_loss K_angle N_Re k_f T_s T_a = Inr q"
proof -
  obtain p1 where p1: "py_pow N_Re 0.52 = Inr p1"
    using py_pow_consts_return by meson
  obtain p2 where p2: "py_pow N_Re 0.6 = Inr p2"
    using py_pow_consts_return by meson
  from p1 p2 show ?thesis by (simp add: forced_convection_heat_loss_def Let_def)
qed


lemma convection_heat_loss_density_pole:
  assumes "1 + 0.00367 * temperature_boundary_layer T_s T_a = 0"
  shows "convection_heat_loss T_s T_a H_e D_o phi V_w = Inl ZeroDivisionError"
  using assms by (simp add: convection_heat_loss_def air_density_cases)

lemma convection_heat_loss_viscosity_pole:
  assumes "temperature_boundary_layer T_s T_a = - 383.4"
  shows "convection_heat_loss T_s T_a H_e D_o phi V_w = Inl ZeroDivisionError"
  using assms air_viscosity_pole by (simp add: convection_heat_loss_def air_density_cases)

lemma convection_raises_at_zero_viscosity:
  assumes "air_viscosity (temperature_boundary_layer T_s T_a) = Inr mu_f" "as_complex mu_f = 0"
    and "air_density H_e (temperature_boundary_layer T_s T_a) = Inr rho_f"
  shows "convection_heat_loss T_s T_a H_e D_o phi V_w = Inl ZeroDivisionError"
proof -
  obtain q where "natural_convection_heat_loss rho_f D_o T_s T_a = Inr q"
    using natural_convection_returns by blast
  then show ?thesis
    using assms by (simp add: convection_heat_loss_def reynolds_number_cases)
qed

lemma convection_heat_loss_returns:
  assumes "air_viscosity (temperature_boundary_layer T_s T_a) = Inr mu_f" "as_complex mu_f \<noteq> 0"
    and "air_density H_e (temperature_boundary_layer T_s T_a) = Inr rho_f"
  shows "\<exists>q_c. convection_heat_loss T_s T_a H_e D_o phi V_w = Inr q_c"
proof -
  obtain q_cn where "natural_convection_heat_loss rho_f D_o T_s T_a = Inr q_cn"
    using natural_convection_returns by blast
  moreover obtain N_Re where "reynolds_number D_o rho_f V_w mu_f = Inr N_Re"
    using assms(2) by (simp add: reynolds_number_cases)
  moreover obtain q_cf where "forced_convection_heat_loss (wind_direction_factor phi) N_Re
      (air_thermal_conductivity_coefficient (temperature_boundary_layer T_s T_a)) T_s T_a = Inr q_cf"
    using forced_convection_returns by blast
  ultimately show ?thesis
    using assms by (simp add: convection_heat_loss_def)
qed

lemma convection_returns_iff:
  "(\<exists>q_c. convection_heat_loss T_s T_a H_e D_o phi V_w = Inr q_c) \<longleftrightarrow>
     (T_s + T_a) / 2 \<noteq> - 273 \<and> 1 + 0.00367 * ((T_s + T_a) / 2) \<noteq> 0
       \<and> (T_s + T_a) / 2 \<noteq> - 383.4"
proof -
  define T_film where "T_film = temperature_boundary_layer T_s T_a"
  have tf: "(T_s + T_a) / 2 = T_film" by (simp add: T_film_def temperature_boundary_layer_def)
  show ?thesis
  proof (cases "1 + 0.00367 * T_film = 0")
    case True
    then show ?thesis
      using convection_heat_loss_density_pole [of T_s T_a H_e D_o phi V_w]
      unfolding tf by (simp add: T_film_def)
  next
    case False
    then obtain rho_f where rho: "air_density H_e T_film = Inr rho_f"
      by (simp add: air_density_cases)
    from air_viscosity_cases [of T_film] show ?thesis
    proof (elim disjE conjE exE)
      assume "air_viscosity T_film = Inl ZeroDivisionError" "T_film = - 383.4"
      then show ?thesis
        using convection_heat_loss_viscosity_pole [of T_s T_a H_e D_o phi V_w]
        unfolding tf by (simp add: T_film_def)
    next
      assume "air_viscosity T_film = Inr (PyFloat 0)" "T_film = - 273"
      then show ?thesis
        using convection_raises_at_zero_viscosity [of T_s T_a "PyFloat 0" H_e rho_f D_o phi V_w] rho
        unfolding tf by (simp add: T_film_def)
    next
      fix mu assume "air_viscosity T_film = Inr (PyFloat mu)" "0 < mu" "- 273 < T_film"
      then show ?thesis
        using convection_heat_loss_returns [of T_s T_a "PyFloat mu" H_e rho_f D_o phi V_w] rho False
        unfolding tf by (simp add: T_film_def)
    next
      fix z assume z: "air_viscosity T_film = Inr (PyComplex z)" "z \<noteq> 0" "T_film < - 273"
      then have "T_film \<noteq> - 383.4"
        using air_viscosity_pole by auto
      with z show ?thesis
        using convection_heat_loss_returns [of T_s T_a "PyComplex z" H_e rho_f D_o phi V_w] rho False
        unfolding tf by (simp add: T_film_def)
    qed
  qed
qed

lemma convection_heat_loss_error:
  assumes "convection_heat_loss T_s T_a H_e D_o phi V_w = Inl e"
  shows "e = ZeroDivisionError"
proof -
  define T_film where "T_film = temperature_boundary_layer T_s T_a"
  have nr: "\<not> (\<exists>q_c. convection_heat_loss T_s T_a H_e D_o phi V_w = Inr q_c)"
    using assms by simp
  then consider "T_film = - 273" | "1 + 0.00367 * T_film = 0" | "T_film = - 383.4"
    unfolding convection_returns_iff T_film_def temperature_boundary_layer_def by blast
  then show ?thesis
  proof cases
    case 1
    have "air_density H_e T_film = Inr ((1.293 - 0.0001525 * H_e + 0.000000006379 * H_e ^ 2) / (1 + 0.00367 * T_film))"
      using 1 by (simp add: air_density_cases)
    then show ?thesis
      using convection_raises_at_zero_viscosity [of T_s T_a "PyFloat 0" H_e _ D_o phi V_w]
        air_viscosity_zero 1 assms unfolding T_film_def by simp
  next
    case 2
    then show ?thesis
      using convection_heat_loss_density_pole [of T_s T_a H_e D_o phi V_w] assms
      unfolding T_film_def by simp
  next
    case 3
    then show ?thesis
      using convection_heat_loss_viscosity_pole [of T_s T_a H_e D_o phi V_w] assms
      unfolding T_film_def by simp
  qed
qed

text \<open>
  Claim C4 says that \<open>convection_heat_loss\<close> never raises and returns 0 when the air
  viscosity is zero. At \<open>T_s = T_a = -273\<close> the film temperature is \<open>-273\<close>, the
  viscosity is \<open>0.0\<close>, and \<open>reynolds_number\<close>, called before the \<open>try\<close>, divides by
  it: the \<open>ZeroDivisionError\<close> leaves the function.
\<close>

theorem convection_heat_loss_zero_viscosity_counterexample:
  "air_viscosity (temperature_boundary_layer (- 273) (- 273)) = Inr (PyFloat 0)
   \<and> convection_heat_loss (- 273) (- 273) 0 0.01 90 0.61 = Inl ZeroDivisionError"
proof -
  have t: "temperature_boundary_layer (- 273) (- 273) = - 273"
    by (simp add: temperature_boundary_layer_def)
  have v: "air_viscosity (temperature_boundary_layer (- 273) (- 273)) = Inr (PyFloat 0)"
    unfolding t by (rule air_viscosity_zero)
  have d: "air_density 0 (temperature_boundary_layer (- 273) (- 273)) = Inr (- (1293000 / 1910))"
    unfolding t by (simp add: air_density_cases)
  from convection_raises_at_zero_viscosity [OF v _ d] v show ?thesis by simp
qed

text \<open>
  Claim C4, amended. With a zero air viscosity \<open>convection_heat_loss\<close> raises
  \<open>ZeroDivisionError\<close>. It returns a number exactly when the film temperature
  \<open>(T_s + T_a) / 2\<close> is none of \<open>-273\<close> (zero viscosity), \<open>-1 / 0.00367\<close> (zero
  divisor of the air density) and \<open>-383.4\<close> (zero divisor of the viscosity), and
  \<open>ZeroDivisionError\<close> is the only exception it raises.
\<close>

theorem convection_heat_loss_raises:
  "(air_viscosity (temperature_boundary_layer T_s T_a) = Inr (PyFloat 0)
      \<longrightarrow> convection_heat_loss T_s T_a H_e D_o phi V_w = Inl ZeroDivisionError)
   \<and> ((\<exists>q_c. convection_heat_loss T_s T_a H_e D_o phi V_w = Inr q_c) \<longleftrightarrow>
        (T_s + T_a) / 2 \<noteq> - 273 \<and> 1 + 0.00367 * ((T_s + T_a) / 2) \<noteq> 0
          \<and> (T_s + T_a) / 2 \<noteq> - 383.4)
   \<and> (convection_heat_loss T_s T_a H_e D_o phi V_w = Inl e \<longrightarrow> e = ZeroDivisionError)"
proof (intro conjI impI)
  assume v: "air_viscosity (temperature_boundary_layer T_s T_a) = Inr (PyFloat 0)"
  have "temperature_boundary_layer T_s T_a = - 273"
    using air_viscosity_cases [of "temperature_boundary_layer T_s T_a"] v by auto
  then obtain rho_f where "air_density H_e (temperature_boundary_layer T_s T_a) = Inr rho_f"
    by (simp add: air_density_cases)
  with v show "convection_heat_loss T_s T_a H_e D_o phi V_w = Inl ZeroDivisionError"
    using convection_raises_at_zero_viscosity [of T_s T_a "PyFloat 0"] by simp
next
  show "(\<exists>q_c. convection_heat_loss T_s T_a H_e D_o phi V_w = Inr q_c) \<longleftrightarrow>
        (T_s + T_a) / 2 \<noteq> - 273 \<and> 1 + 0.00367 * ((T_s + T_a) / 2) \<noteq> 0
          \<and> (T_s + T_a) / 2 \<noteq> - 383.4"
    by (rule convection_returns_iff)
next
  assume "convection_heat_loss T_s T_a H_e D_o phi V_w = Inl e"
  then show "e = ZeroDivisionError" by (rule convection_heat_loss_error)
qed

theorem convection_heat_loss_raises_witness:
  "air_viscosity (temperature_boundary_layer (- 300) (- 246)) = Inr (PyFloat 0)
   \<and> convection_heat_loss (- 300) (- 246) 1000 0.02 45 2 = Inl ZeroDivisionError
   \<and> (\<exists>q_c. convection_heat_loss 100 40 0 0.01 90 0.61 = Inr q_c)"
proof -
  have v: "air_viscosity (temperature_boundary_layer (- 300) (- 246)) = Inr (PyFloat 0)"
    using air_viscosity_zero by (simp add: temperature_boundary_layer_def)
  have "(100 + 40) / 2 \<noteq> (- 273 :: real) \<and> 1 + 0.00367 * ((100 + 40) / 2) \<noteq> (0 :: real)
      \<and> (100 + 40) / 2 \<noteq> (- 383.4 :: real)" by simp
  with v convection_heat_loss_raises [of "- 300" "- 246" 1000 "0.02" 45 2]
    convection_heat_loss_raises [of 100 40 0 "0.01" 90 "0.61"]
  show ?thesis by blast
qed

text \<open>
  Claim C9, amended. For a surface temperature below ambient, a positive air viscosity
  and an air density that could be computed (its divisor \<open>1 + 0.00367 * T_film\<close> is
  not zero), the natural convection term is a complex number, \<open>max\<close> fails on it, and
  \<open>convection_heat_loss\<close> returns exactly 0.
\<close>

theorem convection_heat_loss_below_ambient:
  assumes "T_s < T_a"
    and "air_viscosity (temperature_boundary_layer T_s T_a) = Inr (PyFloat mu_f)" "0 < mu_f"
    and "air_density H_e (temperature_boundary_layer T_s T_a) = Inr rho_f"
  shows "(\<exists>z. natural_convection_heat_loss rho_f D_o T_s T_a = Inr (PyComplex z))
       \<and> convection_heat_loss T_s T_a H_e D_o phi V_w = Inr 0"
proof -
  obtain z where z: "natural_convection_heat_loss rho_f D_o T_s T_a = Inr (PyComplex z)"
    using natural_convection_complex [OF assms(1)] by blast
  obtain N_Re where n: "reynolds_number D_o rho_f V_w (PyFloat mu_f) = Inr N_Re"
    using assms(3) by (simp add: reynolds_number_cases)
  obtain q_cf where "forced_convection_heat_loss (wind_direction_factor phi) N_Re
      (air_thermal_conductivity_coefficient (temperature_boundary_layer T_s T_a)) T_s T_a = Inr q_cf"
    using forced_convection_returns by blast
  with z n assms(2,4) have "convection_heat_loss T_s T_a H_e D_o phi V_w = Inr 0"
    by (simp add: convection_heat_loss_def)
  with z show ?thesis by blast
qed

theorem convection_heat_loss_below_ambient_witness:
  "(20 :: real) < 40
   \<and> air_viscosity (temperature_boundary_layer 20 40)
       = Inr (PyFloat (0.000001458 * (30 + 273) powr 1.5 / (30 + 383.4)))
   \<and> air_density 0 (temperature_boundary_layer 20 40) = Inr (1.293 / 1.1101)
   \<and> convection_heat_loss 20 40 0 0.01 90 0.61 = Inr 0"
proof -
  have t: "temperature_boundary_layer 20 40 = 30"
    by (simp add: temperature_boundary_layer_def)
  have v: "air_viscosity (temperature_boundary_layer 20 40)
       = Inr (PyFloat (0.000001458 * (30 + 273) powr 1.5 / (30 + 383.4)))"
    and p: "0 < 0.000001458 * (30 + 273) powr 1.5 / (30 + 383.4 :: real)"
    unfolding t using air_viscosity_positive [of 30] by simp_all
  have d: "air_density 0 (temperature_boundary_layer 20 40) = Inr (1.293 / 1.1101)"
    unfolding t by (simp add: air_density_cases)
  have l: "(20 :: real) < 40" by simp
  from convection_heat_loss_below_ambient [OF l v p d, of "0.01" 90 "0.61"] l v d
  show ?thesis by blast
qed

text \<open>
  Claim C9 as stated asks for no more than \<open>T_s < T_a\<close> and a positive viscosity. At
  the film temperature \<open>-100000 / 367\<close> both hold, and the divisor of the air density
  is zero: the function raises instead of returning 0.
\<close>

theorem convection_heat_loss_below_ambient_counterexample:
  "(- (100000 / 367) - 1 :: real) < - (100000 / 367) + 1
   \<and> (case air_viscosity (temperature_boundary_layer (- (100000 / 367) - 1) (- (100000 / 367) + 1)) of
         Inr (PyFloat mu_f) \<Rightarrow> 0 < mu_f | _ \<Rightarrow> False)
   \<and> convection_heat_loss (- (100000 / 367) - 1) (- (100000 / 367) + 1) 0 0.01 90 0.61
       = Inl ZeroDivisionError"
proof -
  have t: "temperature_boundary_layer (- (100000 / 367) - 1) (- (100000 / 367) + 1) = - (100000 / 367)"
    by (simp add: temperature_boundary_layer_def)
  have "- 273 < (- (100000 / 367) :: real)" by simp
  from air_viscosity_positive [OF this]
  have v: "case air_viscosity (temperature_boundary_layer (- (100000 / 367) - 1) (- (100000 / 367) + 1)) of
         Inr (PyFloat mu_f) \<Rightarrow> 0 < mu_f | _ \<Rightarrow> False"
    unfolding t by simp
  have "1 + 0.00367 * temperature_boundary_layer (- (100000 / 367) - 1) (- (100000 / 367) + 1) = 0"
    unfolding t by simp
  from convection_heat_loss_density_pole [OF this] v show ?thesis by simp
qed

subsection \<open>Solar heat gain\<close>

lemma altitude_argument_bounded:
  "\<bar>cos a * cos b * cos c + sin a * sin b\<bar> \<le> (1::real)"
proof -
  define u where "u = cos b * cos c"
  define v where "v = sin b"
  have "(cos a * u + sin a * v)\<^sup>2 + (cos a * v - sin a * u)\<^sup>2 = ((cos a)\<^sup>2 + (sin a)\<^sup>2) * (u\<^sup>2 + v\<^sup>2)"
    by algebra
  also have "\<dots> = u\<^sup>2 + v\<^sup>2" by simp
  finally have "(cos a * u + sin a * v)\<^sup>2 \<le> u\<^sup>2 + v\<^sup>2"
    by (smt (verit) zero_le_power2)
  moreover have "u\<^sup>2 \<le> (cos b)\<^sup>2"
  proof -
    have "(cos c)\<^sup>2 \<le> 1" by (simp add: abs_square_le_1)
    then have "(cos b)\<^sup>2 * (cos c)\<^sup>2 \<le> (cos b)\<^sup>2 * 1"
      by (intro mult_left_mono) simp_all
    then show ?thesis by (simp add: u_def power_mult_distrib)
  qed
  moreover have "(cos b)\<^sup>2 + v\<^sup>2 = 1" by (simp add: v_def)
  ultimately have "(cos a * u + sin a * v)\<^sup>2 \<le> 1\<^sup>2" by simp
  then have "\<bar>cos a * u + sin a * v\<bar> \<le> 1"
    by (metis abs_le_square_iff abs_one)
  then show ?thesis by (simp add: u_def v_def mult.assoc)
qed

lemma sun_altitude_angle_returns:
  "sun_altitude_angle lat delta omega =
     Inr (degrees (arcsin (cos (radians lat) * cos (radians delta) * cos (radians omega)
                         + sin (radians lat) * sin (radians delta))))"
  using altitude_argument_bounded [of "radians lat" "radians delta" "radians omega"]
  by (simp add: sun_altitude_angle_def py_asin_def and_then_def abs_le_iff)

lemma incidence_argument_bounded: "\<bar>cos a * cos b\<bar> \<le> (1::real)"
proof -
  have "\<bar>cos a\<bar> * \<bar>cos b\<bar> \<le> 1 * 1"
    by (intro mult_mono) simp_all
  then show ?thesis by (simp add: abs_mult)
qed

lemma solar_rays_incidence_angle_returns:
  "solar_rays_incidence_angle H_c Z_c Z_l =
     Inr (degrees (arccos (cos (radians H_c) * cos (radians (Z_c - Z_l)))))"
  using incidence_argument_bounded [of "radians H_c" "radians (Z_c - Z_l)"]
  by (simp add: solar_rays_incidence_angle_def py_acos_def and_then_def abs_le_iff)

lemma sin_incidence_angle_nonneg:
  assumes "solar_rays_incidence_angle H_c Z_c Z_l = Inr theta"
  shows "0 \<le> sin (radians theta)"
proof -
  define x where "x = cos (radians H_c) * cos (radians (Z_c - Z_l))"
  have x: "- 1 \<le> x" "x \<le> 1"
    using incidence_argument_bounded [of "radians H_c" "radians (Z_c - Z_l)"]
    by (simp_all add: x_def abs_le_iff)
  have "theta = degrees (arccos x)"
    using assms by (simp add: solar_rays_incidence_angle_returns x_def)
  then have "radians theta = arccos x" by (simp add: radians_def degrees_def)
  moreover have "0 \<le> arccos x" "arccos x \<le> pi"
    using x by (simp_all add: arccos_lbound arccos_ubound)
  ultimately show ?thesis by (simp add: sin_ge_zero)
qed


lemma altitude_sun_below_horizon:
  assumes "sun_altitude_angle lat delta omega = Inr H" "H \<le> 0"
  shows "altitude_sun lat delta omega = Inr 0"
  using assms by (simp add: altitude_sun_def)

lemma solar_heat_gain_night:
  assumes "mk_datetime y m d = Inr date"
    and "sun_altitude_angle lat (solar_declination (day_of_year date)) (hour_angle hour) = Inr H"
    and "H \<le> 0"
    and "azimuth_variable (hour_angle hour) lat (solar_declination (day_of_year date)) = Inr ji"
    and "solar_rays_incidence_angle 0 (azimuth (azimuth_constant (hour_angle hour) ji) ji) Z_l = Inr theta"
  shows "solar_heat_gain y m d hour H_e lat industrial Z_l D_o alpha =
     Inr (let q_s = alpha * (elevation_correction_factor H_e
                       * (if industrial then 53.1821 else - 42.2391))
                      * sin (radians theta) * D_o
          in if q_s < 0 then 0 else q_s)"
  using assms altitude_sun_below_horizon [OF assms(2,3)]
  by (simp add: solar_heat_gain_def Let_def total_heat_flux_density_def
      total_heat_flux_intensity_def)

text \<open>
  Claim C6, amended. For the clear atmosphere (\<open>industrial_atmosphere\<close> false), a valid
  date, an azimuth variable that could be computed, and non-negative \<open>alpha\<close>,
  \<open>D_o\<close> and elevation correction factor, \<open>solar_heat_gain\<close> returns exactly 0
  whenever the computed altitude of the sun is at most 0. At \<open>hour = 0\<close> the computed
  altitude is at most 0 on every day of the year for latitudes up to 66.54 degrees.
\<close>

theorem solar_heat_gain_clear_night:
  "(mk_datetime y m d = Inr date
      \<and> sun_altitude_angle lat (solar_declination (day_of_year date)) (hour_angle hour) = Inr H
      \<and> H \<le> 0
      \<and> azimuth_variable (hour_angle hour) lat (solar_declination (day_of_year date)) = Inr ji
      \<and> 0 \<le> alpha \<and> 0 \<le> D_o \<and> 0 \<le> elevation_correction_factor H_e
    \<longrightarrow> solar_heat_gain y m d hour H_e lat False Z_l D_o alpha = Inr 0)
   \<and> (\<bar>lat\<bar> \<le> 66.54 \<longrightarrow>
        (\<exists>H'. sun_altitude_angle lat (solar_declination N) (hour_angle 0) = Inr H' \<and> H' \<le> 0))"
proof (intro conjI impI)
  assume a: "mk_datetime y m d = Inr date
      \<and> sun_altitude_angle lat (solar_declination (day_of_year date)) (hour_angle hour) = Inr H
      \<and> H \<le> 0
      \<and> azimuth_variable (hour_angle hour) lat (solar_declination (day_of_year date)) = Inr ji
      \<and> 0 \<le> alpha \<and> 0 \<le> D_o \<and> 0 \<le> elevation_correction_factor H_e"
  define Z_c where "Z_c = azimuth (azimuth_constant (hour_angle hour) ji) ji"
  obtain theta where th: "solar_rays_incidence_angle 0 Z_c Z_l = Inr theta"
    by (simp add: solar_rays_incidence_angle_returns)
  have s: "0 \<le> sin (radians theta)"
    using th by (rule sin_incidence_angle_nonneg)
  define K where "K = elevation_correction_factor H_e"
  have a1: "0 \<le> alpha" and a2: "0 \<le> D_o" and a3: "0 \<le> K"
    using a by (simp_all add: K_def)
  have p: "0 \<le> alpha * K * sin (radians theta) * D_o"
    by (intro mult_nonneg_nonneg a1 a2 a3 s)
  have "alpha * (K * (- 42.2391)) * sin (radians theta) * D_o
          = - (42.2391 * (alpha * K * sin (radians theta) * D_o))"
    by simp
  also have "\<dots> \<le> 0" using p by simp
  finally have le: "alpha * (K * (- 42.2391)) * sin (radians theta) * D_o \<le> 0" .
  have "solar_heat_gain y m d hour H_e lat False Z_l D_o alpha =
     Inr (let q_s = alpha * (K * (- 42.2391)) * sin (radians theta) * D_o
          in if q_s < 0 then 0 else q_s)"
    using solar_heat_gain_night [of y m d date lat hour H ji Z_l theta H_e False D_o alpha] a th
    by (simp add: Z_c_def K_def)
  also have "\<dots> = Inr 0" using le by (simp add: Let_def)
  finally show "solar_heat_gain y m d hour H_e lat False Z_l D_o alpha = Inr 0" .
next
  assume lat: "\<bar>lat\<bar> \<le> 66.54"
  define delta where "delta = solar_declination N"
  have "\<bar>delta\<bar> \<le> 23.46"
  proof -
    have "\<bar>delta\<bar> = 23.46 * \<bar>sin (radians (real_of_int ((284 + N) * 360) / 365))\<bar>"
      by (simp add: delta_def solar_declination_def abs_mult)
    also have "\<dots> \<le> 23.46 * 1" by (intro mult_left_mono) simp_all
    finally show ?thesis by simp
  qed
  with lat have b: "\<bar>lat + delta\<bar> \<le> 90" by simp
  have r: "radians lat + radians delta = radians (lat + delta)"
    by (simp add: radians_def add_divide_distrib distrib_right)
  have "\<bar>radians (lat + delta)\<bar> \<le> pi / 2"
  proof -
    have "\<bar>radians (lat + delta)\<bar> = \<bar>lat + delta\<bar> * pi / 180"
      by (simp add: radians_def abs_mult)
    also have "\<dots> \<le> 90 * pi / 180"
      using b by (intro divide_right_mono mult_right_mono) simp_all
    finally show ?thesis by simp
  qed
  then have c: "0 \<le> cos (radians lat + radians delta)"
    unfolding r by (intro cos_ge_zero) (simp_all add: abs_le_iff)
  have w: "radians (hour_angle 0) = - pi" by (simp add: radians_def hour_angle_def)
  define x where "x = cos (radians lat) * cos (radians delta) * cos (radians (hour_angle 0))
                         + sin (radians lat) * sin (radians delta)"
  have "x = - cos (radians lat + radians delta)"
    by (simp add: x_def w cos_add)
  with c have x0: "x \<le> 0" by simp
  have x1: "- 1 \<le> x"
    using altitude_argument_bounded [of "radians lat" "radians delta" "radians (hour_angle 0)"]
    by (simp add: x_def abs_le_iff)
  have "arcsin x \<le> arcsin 0"
    using x0 x1 by (intro arcsin_le_arcsin) simp_all
  then have "degrees (arcsin x) \<le> 0"
    by (simp add: degrees_def mult_le_0_iff divide_le_0_iff)
  moreover have "sun_altitude_angle lat delta (hour_angle 0) = Inr (degrees (arcsin x))"
    by (simp add: sun_altitude_angle_returns x_def)
  ultimately show "\<exists>H'. sun_altitude_angle lat (solar_declination N) (hour_angle 0) = Inr H' \<and> H' \<le> 0"
    by (simp add: delta_def)
qed

lemma march_23:
  "mk_datetime 2023 3 23 = Inr \<lparr>year = 2023, month = 3, day = 23\<rparr>"
  "day_of_year \<lparr>year = 2023, month = 3, day = 23\<rparr> = 81"
  by (simp_all add: mk_datetime_def days_in_month_def day_of_year_def ymd2ord_def
      days_before_month_def is_leap_def)

lemma solar_declination_81: "solar_declination 81 = 0"
  by (simp add: solar_declination_def radians_def)

lemma radians_values:
  "radians 0 = 0" "radians 30 = pi / 6" "radians 90 = pi / 2" "radians (- 90) = - (pi / 2)"
  "radians (- 180) = - pi"
  by (simp_all add: radians_def)

lemma midnight_altitude_30: "sun_altitude_angle 30 0 (- 180) = Inr (- 60)"
proof -
  have "0 \<le> pi" by simp
  then have "- (pi / 2) \<le> pi / 3" "pi / 3 \<le> pi / 2" by linarith+
  then have "arcsin (sin (pi / 3)) = pi / 3"
    by (rule arcsin_sin)
  then have "arcsin (sqrt 3 / 2) = pi / 3" by (simp add: sin_60)
  moreover have "sqrt 3 / 2 \<le> 1" by (simp add: real_le_lsqrt)
  moreover have "- 1 \<le> sqrt 3 / 2" by (smt (verit) real_sqrt_ge_zero divide_nonneg_pos)
  ultimately have "arcsin (- (sqrt 3 / 2)) = - (pi / 3)" by (simp add: arcsin_minus)
  then show ?thesis
    by (simp add: sun_altitude_angle_returns radians_values cos_30 sin_30 degrees_def)
qed

lemma midnight_azimuth_30: "azimuth_variable (- 180) 30 0 = Inr 0"
  by (simp add: azimuth_variable_def radians_values cos_30 sin_30 py_div_def)

lemma midnight_incidence_30:
  "solar_rays_incidence_angle 0 (azimuth (azimuth_constant (- 180) 0) 0) 90 = Inr 90"
  by (simp add: solar_rays_incidence_angle_returns azimuth_def azimuth_constant_def
      radians_values degrees_def)

text \<open>
  Claim C6 says that \<open>solar_heat_gain\<close> is 0 whenever the computed altitude of the sun
  is at most 0, in particular at midnight. On 23 March 2023 at \<open>hour = 0\<close> and latitude
  30 the computed altitude is \<open>-60\<close>; \<open>altitude_sun\<close> makes it 0, and for the
  industrial atmosphere the polynomial at 0 is its constant term \<open>53.1821\<close>, so the gain
  is \<open>0.5 * 53.1821 * 0.01\<close>, not 0.
\<close>

theorem solar_heat_gain_industrial_night_counterexample:
  "hour_angle 0 = - 180
   \<and> sun_altitude_angle 30 (solar_declination (day_of_year \<lparr>year = 2023, month = 3, day = 23\<rparr>))
        (hour_angle 0) = Inr (- 60)
   \<and> solar_heat_gain 2023 3 23 0 0 30 True 90 0.01 0.5 = Inr 0.2659105"
proof -
  have h: "hour_angle 0 = - 180" by (simp add: hour_angle_def)
  have "solar_heat_gain 2023 3 23 0 0 30 True 90 0.01 0.5 = Inr 0.2659105"
    using solar_heat_gain_night [of 2023 3 23 "\<lparr>year = 2023, month = 3, day = 23\<rparr>" 30 0 "- 60" 0 90 90 0 True "0.01" "0.5"]
    by (simp add: march_23 solar_declination_81 h midnight_altitude_30 midnight_azimuth_30
        midnight_incidence_30 elevation_correction_factor_def radians_values)
  then show ?thesis
    by (simp add: march_23 solar_declination_81 h midnight_altitude_30)
qed

theorem solar_heat_gain_clear_night_witness:
  "mk_datetime 2023 3 23 = Inr \<lparr>year = 2023, month = 3, day = 23\<rparr>
   \<and> sun_altitude_angle 30 (solar_declination (day_of_year \<lparr>year = 2023, month = 3, day = 23\<rparr>))
        (hour_angle 0) = Inr (- 60)
   \<and> azimuth_variable (hour_angle 0) 30
        (solar_declination (day_of_year \<lparr>year = 2023, month = 3, day = 23\<rparr>)) = Inr 0
   \<and> solar_heat_gain 2023 3 23 0 0 30 False 90 0.01 0.5 = Inr 0
   \<and> (\<exists>H'. sun_altitude_angle 30 (solar_declination 172) (hour_angle 0) = Inr H' \<and> H' \<le> 0)"
proof -
  have h: "hour_angle 0 = - 180" by (simp add: hour_angle_def)
  have d: "mk_datetime 2023 3 23 = Inr \<lparr>year = 2023, month = 3, day = 23\<rparr>"
    by (rule march_23)
  have a: "sun_altitude_angle 30 (solar_declination (day_of_year \<lparr>year = 2023, month = 3, day = 23\<rparr>))
        (hour_angle 0) = Inr (- 60)"
    by (simp add: march_23 solar_declination_81 h midnight_altitude_30)
  have z: "azimuth_variable (hour_angle 0) 30
        (solar_declination (day_of_year \<lparr>year = 2023, month = 3, day = 23\<rparr>)) = Inr 0"
    by (simp add: march_23 solar_declination_81 h midnight_azimuth_30)
  have k: "0 \<le> elevation_correction_factor 0" by (simp add: elevation_correction_factor_def)
  have l: "\<bar>30 :: real\<bar> \<le> 66.54" by simp
  from solar_heat_gain_clear_night [of 2023 3 23 "\<lparr>year = 2023, month = 3, day = 23\<rparr>" 30 0 "- 60" 0 "0.5" "0.01" 0 90 172]
    d a z k l
  show ?thesis by simp
qed

subsection \<open>Steady-state conductor temperature\<close>

lemma and_then_cases:
  "and_then m f = r \<longleftrightarrow> (\<exists>e. m = Inl e \<and> r = Inl e) \<or> (\<exists>x. m = Inr x \<and> f x = r)"
  by (cases m) auto

lemma secant_iteration_update:
  "map_sum id fst (secant_iteration c q_s I_ss T ea) = secant_update c q_s I_ss T"
proof -
  have d: "T * (1 + secant_delta) = T * (1 + 0.1)" by (simp add: secant_delta_def)
  show ?thesis
  proof (cases "convection_heat_loss_at c T")
    case (Inl e)
    then show ?thesis by (simp add: secant_iteration_def secant_update_def residual_def)
  next
    case q1: (Inr q_ci)
    show ?thesis
    proof (cases "convection_heat_loss_at c (T * (1 + 0.1))")
      case (Inl e)
      then show ?thesis
        using q1 unfolding secant_iteration_def secant_update_def residual_def d Let_def
        by simp
    next
      case (Inr q_ci2)
      then show ?thesis
        using q1 unfolding secant_iteration_def secant_update_def residual_def d Let_def
        by (simp add: secant_delta_def)
    qed
  qed
qed

lemma secant_iteration_error:
  assumes "secant_iteration c q_s I_ss T ea = Inr (T_new, ea_new)"
  shows "ea_new = (if T_new \<noteq> 0 then \<bar>(T_new - T) / T_new\<bar> * 100 else ea)"
  using assms unfolding secant_iteration_def Let_def
  by (auto simp: and_then_cases)

lemma secant_state_from_shift:
  "secant_state_from c q_s I_ss s (Suc n) =
     and_then (secant_iteration c q_s I_ss (fst s) (snd s))
       (\<lambda>s'. secant_state_from c q_s I_ss s' n)"
proof (induction n)
  case 0
  show ?case by (cases "secant_iteration c q_s I_ss (fst s) (snd s)") simp_all
next
  case (Suc n)
  have "secant_state_from c q_s I_ss s (Suc (Suc n)) =
      and_then (secant_state_from c q_s I_ss s (Suc n))
        (\<lambda>s'. secant_iteration c q_s I_ss (fst s') (snd s'))" by simp
  also have "\<dots> = and_then (secant_iteration c q_s I_ss (fst s) (snd s))
       (\<lambda>s'. secant_state_from c q_s I_ss s' (Suc n))"
    unfolding Suc.IH by (cases "secant_iteration c q_s I_ss (fst s) (snd s)") simp_all
  finally show ?case .
qed

lemma secant_state_from_trial:
  "map_sum id fst (secant_state_from c q_s I_ss (T, ea) n) = trial_temperature_from c q_s I_ss T n"
proof (induction n)
  case 0
  show ?case by simp
next
  case (Suc n)
  show ?case
  proof (cases "secant_state_from c q_s I_ss (T, ea) n")
    case (Inl e)
    with Suc.IH [symmetric] show ?thesis by simp
  next
    case (Inr s)
    with Suc.IH [symmetric] show ?thesis
      using secant_iteration_update [of c q_s I_ss "fst s" "snd s"] by (simp add: id_def)
  qed
qed

lemma ss_temperature_loop_returns:
  assumes "ss_temperature_loop c q_s I_ss es imax T_i ea i = Inr (T, n)"
  shows "\<exists>k ea'. n = i + 1 + int k
           \<and> secant_state_from c q_s I_ss (T_i, ea) (Suc k) = Inr (T, ea')
           \<and> (ea' \<le> es \<or> imax \<le> n)
           \<and> (\<forall>j<k. \<exists>T'' ea''. secant_state_from c q_s I_ss (T_i, ea) (Suc j) = Inr (T'', ea'')
                  \<and> \<not> ea'' \<le> es \<and> i + 1 + int j < imax)"
  using assms
proof (induction c q_s I_ss es imax T_i ea i rule: ss_temperature_loop.induct)
  case (1 c q_s I_ss es imax T_i ea i)
  from "1.prems" obtain s where s: "secant_iteration c q_s I_ss T_i ea = Inr s"
    by (subst (asm) ss_temperature_loop.simps) (auto split: sum.splits)
  show ?case
  proof (cases "snd s \<le> es \<or> i + 1 \<ge> imax")
    case True
    with "1.prems" s have "T = fst s" "n = i + 1"
      by (subst (asm) ss_temperature_loop.simps, simp)+
    with True s show ?thesis
      by (intro exI [of _ 0] exI [of _ "snd s"]) simp
  next
    case False
    with "1.prems" s have
      "ss_temperature_loop c q_s I_ss es imax (fst s) (snd s) (i + 1) = Inr (T, n)"
      by (subst (asm) ss_temperature_loop.simps) simp
    from "1.IH" [OF s False this] obtain k ea' where k:
      "n = i + 1 + 1 + int k"
      "secant_state_from c q_s I_ss (fst s, snd s) (Suc k) = Inr (T, ea')"
      "ea' \<le> es \<or> imax \<le> n"
      "\<forall>j<k. \<exists>T'' ea''. secant_state_from c q_s I_ss (fst s, snd s) (Suc j) = Inr (T'', ea'')
                  \<and> \<not> ea'' \<le> es \<and> i + 1 + 1 + int j < imax"
      by blast
    have sh: "\<And>m. secant_state_from c q_s I_ss (T_i, ea) (Suc m) = secant_state_from c q_s I_ss (fst s, snd s) m"
      using s by (subst secant_state_from_shift) simp
    have "\<forall>j<Suc k. \<exists>T'' ea''. secant_state_from c q_s I_ss (T_i, ea) (Suc j) = Inr (T'', ea'')
                  \<and> \<not> ea'' \<le> es \<and> i + 1 + int j < imax"
    proof (intro allI impI)
      fix j assume j: "j < Suc k"
      show "\<exists>T'' ea''. secant_state_from c q_s I_ss (T_i, ea) (Suc j) = Inr (T'', ea'')
                  \<and> \<not> ea'' \<le> es \<and> i + 1 + int j < imax"
      proof (cases j)
        case 0
        with False show ?thesis
          unfolding sh by (intro exI [of _ "fst s"] exI [of _ "snd s"]) simp
      next
        case (Suc j')
        with j k(4) show ?thesis unfolding sh by auto
      qed
    qed
    with k(1,2,3) show ?thesis
      unfolding sh [of "Suc k", symmetric]
      by (intro exI [of _ "Suc k"] exI [of _ ea']) simp
  qed
qed

lemma ss_temperature_loop_raises:
  assumes "ss_temperature_loop c q_s I_ss es imax T_i ea i = Inl e"
  shows "\<exists>k. secant_state_from c q_s I_ss (T_i, ea) (Suc k) = Inl e
           \<and> (k = 0 \<or> i + int k < imax)"
  using assms
proof (induction c q_s I_ss es imax T_i ea i rule: ss_temperature_loop.induct)
  case (1 c q_s I_ss es imax T_i ea i)
  show ?case
  proof (cases "secant_iteration c q_s I_ss T_i ea")
    case (Inl e')
    with "1.prems" have "e' = e"
      by (subst (asm) ss_temperature_loop.simps) simp
    with Inl show ?thesis by (intro exI [of _ 0]) simp
  next
    case (Inr s)
    with "1.prems" have nf: "\<not> (snd s \<le> es \<or> i + 1 \<ge> imax)"
      by (subst (asm) ss_temperature_loop.simps) (auto split: if_splits)
    with "1.prems" Inr have
      "ss_temperature_loop c q_s I_ss es imax (fst s) (snd s) (i + 1) = Inl e"
      by (subst (asm) ss_temperature_loop.simps) simp
    from "1.IH" [OF Inr nf this] obtain k where
      k: "secant_state_from c q_s I_ss (fst s, snd s) (Suc k) = Inl e" "k = 0 \<or> i + 1 + int k < imax"
      by blast
    have "secant_state_from c q_s I_ss (T_i, ea) (Suc (Suc k)) = Inl e"
      using Inr k(1) by (subst secant_state_from_shift) simp
    moreover have "i + int (Suc k) < imax" using k(2) nf by auto
    ultimately show ?thesis by blast
  qed
qed

lemma example_solar_heat_gain: "solar_heat_gain_at example_conditions = Inr 0"
  using solar_heat_gain_night [of 2023 3 23 "\<lparr>year = 2023, month = 3, day = 23\<rparr>" 30 0 "- 60" 0 90 90 0 False "0.01" "0.5"]
  by (simp add: solar_heat_gain_at_def example_conditions_def march_23 solar_declination_81
      hour_angle_def midnight_altitude_30 midnight_azimuth_30
      midnight_incidence_30 elevation_correction_factor_def radians_values)

lemma example_convection_returns:
  assumes "p_T_a c = 40" "- 300 < T"
  shows "\<exists>q_c. convection_heat_loss_at c T = Inr q_c"
proof -
  have "(T + 40) / 2 \<noteq> - 273"
    using assms(2) by argo
  moreover have "1 + 0.00367 * ((T + 40) / 2) \<noteq> 0"
    using assms(2) by simp argo
  moreover have "(T + 40) / 2 \<noteq> - 383.4"
    using assms(2) by simp
  ultimately
  have "(T + 40) / 2 \<noteq> - 273 \<and> 1 + 0.00367 * ((T + 40) / 2) \<noteq> 0 \<and> (T + 40) / 2 \<noteq> - 383.4"
    by blast
  then show ?thesis
    unfolding convection_heat_loss_at_def assms(1) convection_returns_iff .
qed

text \<open>
  Claim C1. A run of \<open>steady_state_conductor_temperature\<close> that returns after \<open>n\<close>
  passes returns the \<open>n\<close>-th trial temperature of the specification's iteration: it
  starts from \<open>T_a + 5\<close>, and each pass of the source's loop body computes the secant
  update \<open>T - (0.1 * T * f(T)) / (f(T') - f(T))\<close> with \<open>T' = T * (1 + 0.1)\<close> and
  \<open>f = rating - I_ss\<close>, keeping \<open>T\<close> when \<open>f(T') - f(T) = 0\<close> (and raising exactly when
  an evaluation of the convection loss raises).
\<close>

theorem secant_iteration_follows_update:
  assumes "steady_state_run c I_ss es imax = Inr (T_avg, n)"
    and "solar_heat_gain_at c = Inr q_s"
  shows "1 \<le> n
       \<and> trial_temperature c q_s I_ss 0 = Inr (p_T_a c + 5)
       \<and> trial_temperature c q_s I_ss (nat n) = Inr T_avg
       \<and> steady_state_conductor_temperature c I_ss es imax = Inr T_avg
       \<and> map_sum id fst (secant_iteration c q_s I_ss T ea) = secant_update c q_s I_ss T"
proof -
  from assms have "ss_temperature_loop c q_s I_ss es imax (p_T_a c + 5) 100 0 = Inr (T_avg, n)"
    by (simp add: steady_state_run_def)
  from ss_temperature_loop_returns [OF this] obtain k ea' where
    k: "n = 1 + int k" "secant_state_from c q_s I_ss (p_T_a c + 5, 100) (Suc k) = Inr (T_avg, ea')"
    by auto
  have "nat n = Suc k" using k(1) by simp
  moreover have "trial_temperature_from c q_s I_ss (p_T_a c + 5) (Suc k) = Inr T_avg"
    using secant_state_from_trial [of c q_s I_ss "p_T_a c + 5" 100 "Suc k"] k(2) by simp
  ultimately have "trial_temperature c q_s I_ss (nat n) = Inr T_avg"
    by (simp add: trial_temperature_def)
  moreover have "1 \<le> n" using k(1) by simp
  moreover have "steady_state_conductor_temperature c I_ss es imax = Inr T_avg"
    using assms(1) by (simp add: steady_state_conductor_temperature_def)
  moreover have "trial_temperature c q_s I_ss 0 = Inr (p_T_a c + 5)"
    by (simp add: trial_temperature_def)
  ultimately show ?thesis
    using secant_iteration_update [of c q_s I_ss T ea] by simp
qed

theorem secant_iteration_follows_update_witness:
  "solar_heat_gain_at example_conditions = Inr 0
   \<and> (\<exists>T. steady_state_run example_conditions 300 0.1 1 = Inr (T, 1)
          \<and> trial_temperature example_conditions 0 300 (nat 1) = Inr T
          \<and> secant_update example_conditions 0 300 (p_T_a example_conditions + 5) = Inr T)"
proof -
  have ta: "p_T_a example_conditions = 40" by (simp add: example_conditions_def)
  obtain q1 where q1: "convection_heat_loss_at example_conditions 45 = Inr q1"
    using example_convection_returns [OF ta, of 45] by auto
  obtain q2 where q2: "convection_heat_loss_at example_conditions (45 * (1 + secant_delta)) = Inr q2"
    using example_convection_returns [OF ta, of "45 * (1 + secant_delta)"]
    by (auto simp: secant_delta_def)
  obtain s where s: "secant_iteration example_conditions 0 300 45 100 = Inr s"
    using q1 q2 by (simp add: secant_iteration_def Let_def)
  have run: "steady_state_run example_conditions 300 0.1 1 = Inr (fst s, 1)"
    using s by (simp add: steady_state_run_def example_solar_heat_gain ta)
  from secant_iteration_follows_update [OF run example_solar_heat_gain, of 45 100]
  have "trial_temperature example_conditions 0 300 (nat 1) = Inr (fst s)"
    and "secant_update example_conditions 0 300 45 = Inr (fst s)"
    using s by simp_all
  with run example_solar_heat_gain ta show ?thesis by simp
qed

text \<open>
  Below the ambient temperature the natural convection term is the power of a negative
  base, a complex number, and \<open>max\<close> raises the \<open>TypeError\<close> that the \<open>except\<close>
  answers with 0: the convection heat loss is 0 there. With no radiation
  (\<open>epsilon = 0\<close>), a constant resistance and no sun, the runs of the solver in the
  scenario \<^const>\<open>cold_conditions\<close> have closed forms.
\<close>

lemma py_pow_nonneg_base:
  assumes "0 \<le> x" "0 < e"
  shows "py_pow (PyFloat x) e = Inr (PyFloat (x powr e))"
  using assms by (simp add: py_pow.simps)

lemma natural_convection_real:
  assumes "0 \<le> rho_f" "0 \<le> D_o" "T_a \<le> T_s"
  shows "natural_convection_heat_loss rho_f D_o T_s T_a
           = Inr (PyFloat (3.645 * rho_f powr 0.5 * D_o powr 0.75 * (T_s - T_a) powr 1.25))"
  using assms by (simp add: natural_convection_heat_loss_def py_pow_nonneg_base)

lemma convection_heat_loss_lower_bound:
  assumes "convection_heat_loss T_s T_a H_e D_o phi V_w = Inr q_c"
    and "air_density H_e (temperature_boundary_layer T_s T_a) = Inr rho_f" "0 \<le> rho_f"
    and "0 \<le> D_o" "T_a \<le> T_s"
  shows "3.645 * rho_f powr 0.5 * D_o powr 0.75 * (T_s - T_a) powr 1.25 \<le> q_c"
proof -
  define q_cn where "q_cn = 3.645 * rho_f powr 0.5 * D_o powr 0.75 * (T_s - T_a) powr 1.25"
  have n: "natural_convection_heat_loss rho_f D_o T_s T_a = Inr (PyFloat q_cn)"
    unfolding q_cn_def using assms(3,4,5) by (rule natural_convection_real)
  from assms(1,2) n obtain q_cf where "q_c = (if q_cn > q_cf then q_cn else q_cf)"
    by (auto simp: convection_heat_loss_def and_then_cases Let_def)
  then show ?thesis unfolding q_cn_def by auto
qed

lemma convection_heat_loss_nonneg:
  assumes "convection_heat_loss T_s T_a H_e D_o phi V_w = Inr q_c"
    and "air_density H_e (temperature_boundary_layer T_s T_a) = Inr rho_f" "0 \<le> rho_f"
    and "0 \<le> D_o" "T_a \<le> T_s"
  shows "0 \<le> q_c"
proof -
  have "0 \<le> 3.645 * rho_f powr 0.5 * D_o powr 0.75 * (T_s - T_a) powr 1.25" by simp
  with convection_heat_loss_lower_bound [OF assms] show ?thesis by linarith
qed

lemma convection_heat_loss_pos:
  assumes "convection_heat_loss T_s T_a H_e D_o phi V_w = Inr q_c"
    and "air_density H_e (temperature_boundary_layer T_s T_a) = Inr rho_f" "0 < rho_f"
    and "0 < D_o" "T_a < T_s"
  shows "0 < q_c"
proof -
  have "0 < 3.645 * rho_f powr 0.5 * D_o powr 0.75 * (T_s - T_a) powr 1.25"
    using assms(3,4,5) by simp
  moreover have "3.645 * rho_f powr 0.5 * D_o powr 0.75 * (T_s - T_a) powr 1.25 \<le> q_c"
    using assms by (intro convection_heat_loss_lower_bound) simp_all
  ultimately show ?thesis by linarith
qed

lemma convection_zero_below_ambient:
  assumes "T_s < T_a" and "- 272 < (T_s + T_a) / 2"
  shows "convection_heat_loss T_s T_a H_e D_o phi V_w = Inr 0"
proof -
  define T_film where "T_film = temperature_boundary_layer T_s T_a"
  have tf: "- 272 < T_film"
    using assms(2) by (simp add: T_film_def temperature_boundary_layer_def)
  then have "- 273 < T_film" by simp
  from air_viscosity_positive [OF this] obtain mu_f where
    mu: "air_viscosity T_film = Inr (PyFloat mu_f)" "0 < mu_f" by blast
  have "1 + 0.00367 * T_film \<noteq> 0" using tf by simp
  then obtain rho_f where rho: "air_density H_e T_film = Inr rho_f"
    by (simp add: air_density_cases)
  obtain z where z: "natural_convection_heat_loss rho_f D_o T_s T_a = Inr (PyComplex z)"
    using natural_convection_complex [OF assms(1)] by blast
  obtain N_Re where n: "reynolds_number D_o rho_f V_w (PyFloat mu_f) = Inr N_Re"
    using mu(2) by (simp add: reynolds_number_cases)
  obtain q_cf where "forced_convection_heat_loss (wind_direction_factor phi) N_Re
      (air_thermal_conductivity_coefficient T_film) T_s T_a = Inr q_cf"
    using forced_convection_returns by blast
  with z n mu rho show ?thesis
    by (simp add: convection_heat_loss_def T_film_def [symmetric])
qed

lemma cold_fields:
  "p_T_a cold_conditions = - 60" "p_epsilon cold_conditions = 0" "p_alpha_T cold_conditions = 0"
  "p_R_0 cold_conditions = 0.0001" "p_D_o cold_conditions = 0.01" "p_H_e cold_conditions = 0"
  by (simp_all add: cold_conditions_def example_conditions_def)

lemma cold_solar_heat_gain: "solar_heat_gain_at cold_conditions = Inr 0"
  using example_solar_heat_gain
  by (simp add: solar_heat_gain_at_def cold_conditions_def)

lemma cold_resistance: "conductor_electrical_resistance_at cold_conditions T = 0.0001"
  by (simp add: conductor_electrical_resistance_at_def conductor_electrical_resistance_def
      cold_fields)

lemma cold_radiation: "radiated_heat_loss_at cold_conditions T = 0"
  by (simp add: radiated_heat_loss_at_def radiated_heat_loss_def cold_fields)

lemma cold_convection_below:
  assumes "T < - 60" "- 400 < T"
  shows "convection_heat_loss_at cold_conditions T = Inr 0"
proof -
  have "- 272 < (T + - 60) / 2" using assms(2) by simp
  with assms(1) show ?thesis
    unfolding convection_heat_loss_at_def cold_fields
    by (intro convection_zero_below_ambient) simp_all
qed

lemma cold_convection_above:
  "\<exists>q. convection_heat_loss_at cold_conditions (- 55) = Inr q \<and> 0 < q"
proof -
  have "\<exists>q. convection_heat_loss (- 55) (- 60) 0 0.01 (p_phi cold_conditions)
      (p_V_w cold_conditions) = Inr q"
    unfolding convection_returns_iff by simp
  then obtain q where q: "convection_heat_loss (- 55) (- 60) 0 0.01 (p_phi cold_conditions)
      (p_V_w cold_conditions) = Inr q" by blast
  have d: "air_density 0 (temperature_boundary_layer (- 55) (- 60))
      = Inr (1.293 / (1 + 0.00367 * - 57.5))"
    by (simp add: air_density_cases temperature_boundary_layer_def)
  have "0 < q"
    by (rule convection_heat_loss_pos [OF q d]) simp_all
  with q show ?thesis by (simp add: convection_heat_loss_at_def cold_fields)
qed

lemma rating_zero_flux: "steady_state_thermal_rating 0 0 0 R = 0"
  by (simp add: steady_state_thermal_rating_def thermal_rating_try_cases)

lemma secant_iteration_moves:
  assumes "convection_heat_loss_at c T = Inr q_ci"
    and "convection_heat_loss_at c (T * (1 + secant_delta)) = Inr q_ci2"
    and "steady_state_thermal_rating q_ci (radiated_heat_loss_at c T) q_s
           (conductor_electrical_resistance_at c T) - I_ss = f_i"
    and "steady_state_thermal_rating q_ci2 (radiated_heat_loss_at c (T * (1 + secant_delta))) q_s
           (conductor_electrical_resistance_at c (T * (1 + secant_delta))) - I_ss = f_i2"
    and "f_i2 - f_i \<noteq> 0" and "T_new = T - (secant_delta * T * f_i) / (f_i2 - f_i)"
    and "T_new \<noteq> 0"
  shows "secant_iteration c q_s I_ss T ea = Inr (T_new, \<bar>(T_new - T) / T_new\<bar> * 100)"
  unfolding secant_iteration_def Let_def assms(1,2) and_then_Inr assms(3,4)
  using assms(5,7) unfolding assms(6) by simp

lemma secant_iteration_stays:
  assumes "convection_heat_loss_at c T = Inr q_ci"
    and "convection_heat_loss_at c (T * (1 + secant_delta)) = Inr q_ci2"
    and "steady_state_thermal_rating q_ci (radiated_heat_loss_at c T) q_s
           (conductor_electrical_resistance_at c T) - I_ss = f_i"
    and "steady_state_thermal_rating q_ci2 (radiated_heat_loss_at c (T * (1 + secant_delta))) q_s
           (conductor_electrical_resistance_at c (T * (1 + secant_delta))) - I_ss = f_i"
    and "T \<noteq> 0"
  shows "secant_iteration c q_s I_ss T ea = Inr (T, 0)"
  unfolding secant_iteration_def Let_def assms(1,2) and_then_Inr assms(3,4)
  using assms(5) by simp

lemma cold_first_pass:
  "secant_iteration cold_conditions 0 0 (- 55) ea = Inr (- 60.5, 100 / 11)"
proof -
  obtain q where q: "convection_heat_loss_at cold_conditions (- 55) = Inr q" "0 < q"
    using cold_convection_above by blast
  have q2: "convection_heat_loss_at cold_conditions (- 55 * (1 + secant_delta)) = Inr 0"
    by (rule cold_convection_below) (simp_all add: secant_delta_def)
  define g where "g = steady_state_thermal_rating q 0 0 0.0001"
  have g: "0 < g"
    using q(2) by (simp add: g_def steady_state_thermal_rating_def thermal_rating_try_cases)
  have f1: "steady_state_thermal_rating q (radiated_heat_loss_at cold_conditions (- 55)) 0
           (conductor_electrical_resistance_at cold_conditions (- 55)) - 0 = g"
    by (simp add: cold_resistance cold_radiation g_def)
  have f2: "steady_state_thermal_rating 0
           (radiated_heat_loss_at cold_conditions (- 55 * (1 + secant_delta))) 0
           (conductor_electrical_resistance_at cold_conditions (- 55 * (1 + secant_delta))) - 0 = 0"
    by (simp add: cold_resistance cold_radiation rating_zero_flux)
  have d: "0 - g \<noteq> 0" using g by simp
  have n: "- 60.5 = - 55 - (secant_delta * - 55 * g) / (0 - g)"
    using g by (simp add: secant_delta_def field_simps)
  have "secant_iteration cold_conditions 0 0 (- 55) ea
      = Inr (- 60.5, \<bar>(- 60.5 - - 55) / - 60.5\<bar> * 100)"
    by (rule secant_iteration_moves [OF q(1) q2 f1 f2 d n]) simp
  then show ?thesis by simp
qed

lemma cold_second_pass:
  "secant_iteration cold_conditions 0 0 (- 60.5) ea = Inr (- 60.5, 0)"
proof -
  have q1: "convection_heat_loss_at cold_conditions (- 60.5) = Inr 0"
    by (rule cold_convection_below) simp_all
  have q2: "convection_heat_loss_at cold_conditions (- 60.5 * (1 + secant_delta)) = Inr 0"
    by (rule cold_convection_below) (simp_all add: secant_delta_def)
  have f: "steady_state_thermal_rating 0 (radiated_heat_loss_at cold_conditions T) 0
           (conductor_electrical_resistance_at cold_conditions T) - 0 = 0" for T
    by (simp add: cold_resistance cold_radiation rating_zero_flux)
  show ?thesis
    by (rule secant_iteration_stays [OF q1 q2 f f]) simp
qed

lemma cold_run:
  assumes "0 \<le> es" "es < 100 / 11" "2 \<le> imax"
  shows "steady_state_run cold_conditions 0 es imax = Inr (- 60.5, 2)"
proof -
  have "ss_temperature_loop cold_conditions 0 0 es imax (- 55) 100 0
      = ss_temperature_loop cold_conditions 0 0 es imax (- 60.5) (100 / 11) 1"
    using assms by (subst ss_temperature_loop.simps) (simp add: cold_first_pass)
  also have "\<dots> = Inr (- 60.5, 2)"
    using assms cold_second_pass [of "100 / 11"]
    by (subst ss_temperature_loop.simps) simp
  finally show ?thesis
    by (simp add: steady_state_run_def cold_solar_heat_gain cold_fields)
qed

lemma cold_states:
  "secant_state cold_conditions 0 0 1 = Inr (- 60.5, 100 / 11)"
  "secant_state cold_conditions 0 0 2 = Inr (- 60.5, 0)"
proof -
  show 1: "secant_state cold_conditions 0 0 1 = Inr (- 60.5, 100 / 11)"
    using cold_first_pass [of 100] by (simp add: secant_state_def cold_fields)
  have "secant_state cold_conditions 0 0 (Suc 1)
      = secant_iteration cold_conditions 0 0 (- 60.5) (100 / 11)"
    using 1 unfolding secant_state_def by simp
  then show "secant_state cold_conditions 0 0 2 = Inr (- 60.5, 0)"
    using cold_second_pass [of "100 / 11"] by (simp add: numeral_2_eq_2)
qed

text \<open>
  The specification's relative change \<open>|T_new - T_old| / T_new * 100\<close> is negative for
  a negative trial temperature and so below every tolerance. In the cold scenario, with
  no current, the first pass goes from -55 to -60.5: the specification's quantity is
  \<open>-100/11 \<le> 5\<close>, its rule stops after pass 1; the code computes \<open>100/11 > 5\<close> and
  makes a second pass.
\<close>

theorem relative_error_sign_counterexample:
  "solar_heat_gain_at cold_conditions = Inr 0
   \<and> p_T_a cold_conditions + 5 = - 55
   \<and> secant_state cold_conditions 0 0 1 = Inr (- 60.5, 100 / 11)
   \<and> \<bar>- 60.5 - (- 55 :: real)\<bar> / (- 60.5) * 100 \<le> 5
   \<and> steady_state_run cold_conditions 0 5 10 = Inr (- 60.5, 2)"
proof -
  have "steady_state_run cold_conditions 0 5 10 = Inr (- 60.5, 2)"
    by (rule cold_run) simp_all
  then show ?thesis
    using cold_states(1) by (simp add: cold_solar_heat_gain cold_fields)
qed

text \<open>
  Claim C2, amended. The loop of \<open>steady_state_conductor_temperature\<close> terminates for
  every tolerance and every cap (its definition above carries the termination proof).
  For \<open>imax \<ge> 1\<close> a run either returns after \<open>n\<close> passes with \<open>1 \<le> n \<le> imax\<close>, the
  returned temperature being the trial temperature of pass \<open>n\<close>, where pass \<open>n\<close> is the
  first with \<open>ea \<le> es\<close> or \<open>n = imax\<close>; or a pass \<open>k \<le> imax\<close> raised. The relative
  error is \<open>|(T_new - T_old) / T_new| * 100\<close>, the absolute value of the whole quotient
  (never negative, also for a negative trial temperature), and the previous one when
  \<open>T_new = 0\<close>.
\<close>

theorem steady_state_iteration_bound:
  assumes "1 \<le> imax" and "solar_heat_gain_at c = Inr q_s"
  shows "((\<exists>T n ea. steady_state_run c I_ss es imax = Inr (T, n)
             \<and> steady_state_conductor_temperature c I_ss es imax = Inr T
             \<and> 1 \<le> n \<and> n \<le> imax
             \<and> secant_state c q_s I_ss (nat n) = Inr (T, ea)
             \<and> (ea \<le> es \<or> n = imax)
             \<and> (\<forall>k. 1 \<le> k \<and> k < nat n \<longrightarrow>
                   (\<exists>T' ea'. secant_state c q_s I_ss k = Inr (T', ea') \<and> \<not> ea' \<le> es)))
          \<or> (\<exists>e k. steady_state_run c I_ss es imax = Inl e
             \<and> 1 \<le> k \<and> int k \<le> imax \<and> secant_state c q_s I_ss k = Inl e))
       \<and> (secant_iteration c q_s I_ss T_i ea_old = Inr (T_new, ea_new) \<longrightarrow>
            ea_new = (if T_new \<noteq> 0 then \<bar>(T_new - T_i) / T_new\<bar> * 100 else ea_old))"
proof (intro conjI impI)
  assume "secant_iteration c q_s I_ss T_i ea_old = Inr (T_new, ea_new)"
  then show "ea_new = (if T_new \<noteq> 0 then \<bar>(T_new - T_i) / T_new\<bar> * 100 else ea_old)"
    by (rule secant_iteration_error)
next
  have run: "steady_state_run c I_ss es imax
      = ss_temperature_loop c q_s I_ss es imax (p_T_a c + 5) 100 0"
    using assms(2) by (simp add: steady_state_run_def)
  show "(\<exists>T n ea. steady_state_run c I_ss es imax = Inr (T, n)
             \<and> steady_state_conductor_temperature c I_ss es imax = Inr T
             \<and> 1 \<le> n \<and> n \<le> imax
             \<and> secant_state c q_s I_ss (nat n) = Inr (T, ea)
             \<and> (ea \<le> es \<or> n = imax)
             \<and> (\<forall>k. 1 \<le> k \<and> k < nat n \<longrightarrow>
                   (\<exists>T' ea'. secant_state c q_s I_ss k = Inr (T', ea') \<and> \<not> ea' \<le> es)))
          \<or> (\<exists>e k. steady_state_run c I_ss es imax = Inl e
             \<and> 1 \<le> k \<and> int k \<le> imax \<and> secant_state c q_s I_ss k = Inl e)"
  proof (cases "steady_state_run c I_ss es imax")
    case (Inl e)
    then have "ss_temperature_loop c q_s I_ss es imax (p_T_a c + 5) 100 0 = Inl e"
      using run by simp
    from ss_temperature_loop_raises [OF this] obtain k where
      k: "secant_state_from c q_s I_ss (p_T_a c + 5, 100) (Suc k) = Inl e" "k = 0 \<or> int k < imax"
      by auto
    have "int (Suc k) \<le> imax" using k(2) assms(1) by auto
    with Inl k(1) show ?thesis
      by (intro disjI2 exI [of _ e] exI [of _ "Suc k"]) (simp add: secant_state_def)
  next
    case (Inr r)
    obtain T n where r: "r = (T, n)" by (cases r)
    with Inr run have "ss_temperature_loop c q_s I_ss es imax (p_T_a c + 5) 100 0 = Inr (T, n)"
      by simp
    from ss_temperature_loop_returns [OF this] obtain k ea where
      k: "n = 1 + int k"
         "secant_state_from c q_s I_ss (p_T_a c + 5, 100) (Suc k) = Inr (T, ea)"
         "ea \<le> es \<or> imax \<le> n"
         "\<forall>j<k. \<exists>T'' ea''. secant_state_from c q_s I_ss (p_T_a c + 5, 100) (Suc j) = Inr (T'', ea'')
                  \<and> \<not> ea'' \<le> es \<and> 1 + int j < imax"
      by auto
    have n: "nat n = Suc k" using k(1) by simp
    have le: "n \<le> imax"
    proof (cases k)
      case 0
      with k(1) assms(1) show ?thesis by simp
    next
      case (Suc j)
      with k(4) have "1 + int j < imax" by auto
      with k(1) Suc show ?thesis by simp
    qed
    have before: "\<forall>k'. 1 \<le> k' \<and> k' < nat n \<longrightarrow>
        (\<exists>T' ea'. secant_state c q_s I_ss k' = Inr (T', ea') \<and> \<not> ea' \<le> es)"
    proof (intro allI impI)
      fix k' assume "1 \<le> k' \<and> k' < nat n"
      then obtain j where "k' = Suc j" "j < k" using n by (cases k') auto
      with k(4) show "\<exists>T' ea'. secant_state c q_s I_ss k' = Inr (T', ea') \<and> \<not> ea' \<le> es"
        unfolding secant_state_def by blast
    qed
    have "steady_state_conductor_temperature c I_ss es imax = Inr T"
      using Inr r by (simp add: steady_state_conductor_temperature_def)
    moreover have "secant_state c q_s I_ss (nat n) = Inr (T, ea)"
      using k(2) n by (simp add: secant_state_def)
    moreover have "ea \<le> es \<or> n = imax" using k(3) le by auto
    moreover have "1 \<le> n" using k(1) by simp
    ultimately show ?thesis
      using Inr r le before by (intro disjI1 exI [of _ T] exI [of _ n] exI [of _ ea]) simp
  qed
qed

theorem steady_state_iteration_bound_witness:
  "(1 :: int) \<le> 5
   \<and> solar_heat_gain_at cold_conditions = Inr 0
   \<and> steady_state_run cold_conditions 0 9 5 = Inr (- 60.5, 2)
   \<and> steady_state_conductor_temperature cold_conditions 0 9 5 = Inr (- 60.5)
   \<and> secant_state cold_conditions 0 0 1 = Inr (- 60.5, 100 / 11) \<and> \<not> (100 / 11 \<le> (9 :: real))
   \<and> secant_state cold_conditions 0 0 2 = Inr (- 60.5, 0) \<and> (0 :: real) \<le> 9
   \<and> secant_iteration cold_conditions 0 0 (- 55) 100 = Inr (- 60.5, 100 / 11)
   \<and> (100 / 11 :: real) = \<bar>(- 60.5 - - 55) / - 60.5\<bar> * 100"
proof -
  have i: "(1 :: int) \<le> 5" by simp
  have run: "steady_state_run cold_conditions 0 9 5 = Inr (- 60.5, 2)"
    by (rule cold_run) simp_all
  have it: "secant_iteration cold_conditions 0 0 (- 55) 100 = Inr (- 60.5, 100 / 11)"
    by (rule cold_first_pass)
  note th = steady_state_iteration_bound
    [OF i cold_solar_heat_gain, of 0 9 "- 55" 100 "- 60.5" "100 / 11"]
  from th have "secant_iteration cold_conditions 0 0 (- 55) 100 = Inr (- 60.5, 100 / 11)
      \<longrightarrow> (100 / 11 :: real) = (if (- 60.5 :: real) \<noteq> 0
            then \<bar>(- 60.5 - - 55) / - 60.5\<bar> * 100 else 100)"
    by (rule conjunct2)
  from this it have e: "(100 / 11 :: real) = (if (- 60.5 :: real) \<noteq> 0
      then \<bar>(- 60.5 - - 55) / - 60.5\<bar> * 100 else 100)"
    by (rule mp)
  have t: "steady_state_conductor_temperature cold_conditions 0 9 5 = Inr (- 60.5)"
    using run by (simp add: steady_state_conductor_temperature_def)
  have s1: "secant_state cold_conditions 0 0 1 = Inr (- 60.5, 100 / 11)"
    and s2: "secant_state cold_conditions 0 0 2 = Inr (- 60.5, 0)"
    by (rule cold_states)+
  have "(100 / 11 :: real) = \<bar>(- 60.5 - - 55) / - 60.5\<bar> * 100"
    using e by simp
  moreover have "\<not> (100 / 11 \<le> (9 :: real))" "(0 :: real) \<le> 9" by simp_all
  ultimately show ?thesis
    using i run it t s1 s2 cold_solar_heat_gain by blast
qed

subsection \<open>Transient conductor temperature\<close>

text \<open>
  What the loop over the time steps returns, and what it raises. The count of steps is
  \<open>int(trunc(time/dt))\<close> of the quotient as the machine computes it, the parameter
  \<open>fdiv\<close>.
\<close>

lemma temperature_steps_returns:
  assumes "temperature_steps c q_s I_f mC_p nt T = Inr Ts" and "T \<noteq> []"
  shows "length Ts = length T + length nt \<and> take (length T) Ts = T
       \<and> (\<forall>k<length nt. \<exists>q_c. convection_heat_loss_at c (Ts ! (length T - 1 + k)) = Inr q_c
             \<and> mC_p \<noteq> 0
             \<and> Ts ! (length T + k) = Ts ! (length T - 1 + k)
                 + (conductor_electrical_resistance_at c (Ts ! (length T - 1 + k)) * I_f ^ 2 + q_s
                      - q_c - radiated_heat_loss_at c (Ts ! (length T - 1 + k))) / mC_p * (nt ! k))"
  using assms
proof (induction nt arbitrary: T)
  case Nil
  then show ?case by simp
next
  case (Cons step nt)
  from Cons.prems(1) obtain q_c where q: "convection_heat_loss_at c (last T) = Inr q_c"
    by (auto simp: and_then_cases Let_def)
  with Cons.prems(1) obtain dT where
    d: "delta_T (conductor_electrical_resistance_at c (last T)) I_f q_s q_c
          (radiated_heat_loss_at c (last T)) mC_p step = Inr dT"
    and rest: "temperature_steps c q_s I_f mC_p nt (T @ [last T + dT]) = Inr Ts"
    by (auto simp: and_then_cases Let_def)
  from d have m: "mC_p \<noteq> 0"
    and dT: "dT = (conductor_electrical_resistance_at c (last T) * I_f ^ 2 + q_s - q_c
                    - radiated_heat_loss_at c (last T)) / mC_p * step"
    by (auto simp: delta_T_def py_div_def and_then_cases split: if_splits)
  from Cons.IH [OF rest] have
    len: "length Ts = length T + 1 + length nt"
    and tk: "take (length T + 1) Ts = T @ [last T + dT]"
    and ih: "\<forall>k<length nt. \<exists>q_c. convection_heat_loss_at c (Ts ! (length T + k)) = Inr q_c
             \<and> mC_p \<noteq> 0
             \<and> Ts ! (length T + 1 + k) = Ts ! (length T + k)
                 + (conductor_electrical_resistance_at c (Ts ! (length T + k)) * I_f ^ 2 + q_s
                      - q_c - radiated_heat_loss_at c (Ts ! (length T + k))) / mC_p * (nt ! k)"
    by simp_all
  have nth: "Ts ! j = (T @ [last T + dT]) ! j" if "j < length T + 1" for j
    using tk that by (metis nth_take)
  have l: "Ts ! (length T - 1) = last T"
    using nth [of "length T - 1"] Cons.prems(2) by (simp add: nth_append last_conv_nth)
  have n: "Ts ! length T = last T + dT"
    using nth [of "length T"] by simp
  have t: "take (length T) Ts = T"
    using tk by (metis append_eq_conv_conj length_take min.absorb2 take_take le_add1 butlast_snoc butlast_take diff_add_inverse2)
  have "\<exists>q_c. convection_heat_loss_at c (Ts ! (length T - 1 + k)) = Inr q_c
             \<and> mC_p \<noteq> 0
             \<and> Ts ! (length T + k) = Ts ! (length T - 1 + k)
                 + (conductor_electrical_resistance_at c (Ts ! (length T - 1 + k)) * I_f ^ 2 + q_s
                      - q_c - radiated_heat_loss_at c (Ts ! (length T - 1 + k))) / mC_p * ((step # nt) ! k)"
    if k: "k < length (step # nt)" for k
  proof (cases k)
    case 0
    then show ?thesis using q m dT l n by simp
  next
    case (Suc j)
    with k have j: "j < length nt" by simp
    have e1: "length T - 1 + k = length T + j"
      using Cons.prems(2) Suc by (cases T) simp_all
    have e2: "length T + k = length T + 1 + j" using Suc by simp
    have e3: "(step # nt) ! k = nt ! j" using Suc by simp
    from ih j show ?thesis unfolding e1 e2 e3 by blast
  qed
  with len t show ?case by simp
qed


lemma delta_T_error:
  assumes "delta_T R I q_s q_c q_r mC_p dt = Inl e"
  shows "e = ZeroDivisionError"
  using assms by (auto simp: delta_T_def py_div_def and_then_cases split: if_splits)

lemma temperature_steps_error:
  assumes "temperature_steps c q_s I_f mC_p nt T = Inl e"
  shows "e = ZeroDivisionError"
  using assms
proof (induction nt arbitrary: T)
  case Nil
  then show ?case by simp
next
  case (Cons step nt)
  show ?case
  proof (cases "convection_heat_loss_at c (last T)")
    case (Inl e')
    with Cons.prems have "e' = e" by (simp add: Let_def)
    with Inl show ?thesis
      using convection_heat_loss_error by (simp add: convection_heat_loss_at_def)
  next
    case q: (Inr q_c)
    show ?thesis
    proof (cases "delta_T (conductor_electrical_resistance_at c (last T)) I_f q_s q_c
          (radiated_heat_loss_at c (last T)) mC_p step")
      case (Inl e')
      with Cons.prems q have "e' = e" by (simp add: Let_def)
      with Inl show ?thesis using delta_T_error by blast
    next
      case (Inr dT)
      with Cons.prems q have "temperature_steps c q_s I_f mC_p nt (T @ [last T + dT]) = Inl e"
        by (simp add: Let_def)
      then show ?thesis by (rule Cons.IH)
    qed
  qed
qed

lemma transient_conductor_temperature_error:
  assumes "transient_conductor_temperature fdiv I_i I_f dt time mC_p c es imax = Inl e"
  shows "steady_state_conductor_temperature c I_i es imax = Inl e
       \<or> solar_heat_gain_at c = Inl e \<or> e = ZeroDivisionError"
proof (cases "steady_state_conductor_temperature c I_i es imax")
  case (Inl e')
  with assms show ?thesis by (simp add: transient_conductor_temperature_def)
next
  case T: (Inr T_i)
  show ?thesis
  proof (cases "solar_heat_gain_at c")
    case (Inl e')
    with assms T show ?thesis by (simp add: transient_conductor_temperature_def)
  next
    case (Inr q_s)
    with assms T have "dt = 0 \<and> e = ZeroDivisionError
        \<or> (\<exists>nt. temperature_steps c q_s I_f mC_p nt [T_i] = Inl e)"
      by (auto simp: transient_conductor_temperature_def py_float_div_def Let_def split: if_splits)
    then show ?thesis using temperature_steps_error by blast
  qed
qed


lemma temperature_steps_complete:
  assumes "T \<noteq> []" and "length Ts = length T + m" and "take (length T) Ts = T"
    and "\<forall>k<m. \<exists>q_c. convection_heat_loss_at c (Ts ! (length T - 1 + k)) = Inr q_c
             \<and> mC_p \<noteq> 0
             \<and> Ts ! (length T + k) = Ts ! (length T - 1 + k)
                 + (conductor_electrical_resistance_at c (Ts ! (length T - 1 + k)) * I_f ^ 2 + q_s
                      - q_c - radiated_heat_loss_at c (Ts ! (length T - 1 + k))) / mC_p * dt"
  shows "temperature_steps c q_s I_f mC_p (replicate m dt) T = Inr Ts"
  using assms
proof (induction m arbitrary: T)
  case 0
  then show ?case by simp
next
  case (Suc m)
  have l: "Ts ! (length T - 1) = last T"
  proof -
    have "length T - 1 < length T" using Suc.prems(1) by simp
    then have "Ts ! (length T - 1) = take (length T) Ts ! (length T - 1)" by simp
    then show ?thesis using Suc.prems(1,3) by (simp add: last_conv_nth)
  qed
  from Suc.prems(4) obtain q_c where
    q: "convection_heat_loss_at c (last T) = Inr q_c" and m: "mC_p \<noteq> 0"
    and n: "Ts ! length T = last T
        + (conductor_electrical_resistance_at c (last T) * I_f ^ 2 + q_s
             - q_c - radiated_heat_loss_at c (last T)) / mC_p * dt"
    using l by fastforce
  define dT where "dT = (conductor_electrical_resistance_at c (last T) * I_f ^ 2 + q_s
             - q_c - radiated_heat_loss_at c (last T)) / mC_p * dt"
  have d: "delta_T (conductor_electrical_resistance_at c (last T)) I_f q_s q_c
          (radiated_heat_loss_at c (last T)) mC_p dt = Inr dT"
    using m by (simp add: delta_T_def py_div_def dT_def)
  define T' where "T' = T @ [last T + dT]"
  have lt: "length T < length Ts" using Suc.prems(2) by simp
  have t': "take (length T') Ts = T'"
    using Suc.prems(3) n lt by (simp add: T'_def dT_def take_Suc_conv_app_nth)
  have "\<forall>k<m. \<exists>q_c. convection_heat_loss_at c (Ts ! (length T' - 1 + k)) = Inr q_c
             \<and> mC_p \<noteq> 0
             \<and> Ts ! (length T' + k) = Ts ! (length T' - 1 + k)
                 + (conductor_electrical_resistance_at c (Ts ! (length T' - 1 + k)) * I_f ^ 2 + q_s
                      - q_c - radiated_heat_loss_at c (Ts ! (length T' - 1 + k))) / mC_p * dt"
  proof (intro allI impI)
    fix k assume k: "k < m"
    have e1: "length T' - 1 + k = length T - 1 + Suc k"
      using Suc.prems(1) by (cases T) (simp_all add: T'_def)
    have e2: "length T' + k = length T + Suc k" by (simp add: T'_def)
    from Suc.prems(4) k show "\<exists>q_c. convection_heat_loss_at c (Ts ! (length T' - 1 + k)) = Inr q_c
             \<and> mC_p \<noteq> 0
             \<and> Ts ! (length T' + k) = Ts ! (length T' - 1 + k)
                 + (conductor_electrical_resistance_at c (Ts ! (length T' - 1 + k)) * I_f ^ 2 + q_s
                      - q_c - radiated_heat_loss_at c (Ts ! (length T' - 1 + k))) / mC_p * dt"
      unfolding e1 e2 by (meson Suc_less_eq)
  qed
  moreover have "T' \<noteq> []" by (simp add: T'_def)
  moreover have "length Ts = length T' + m" using Suc.prems(2) by (simp add: T'_def)
  ultimately have "temperature_steps c q_s I_f mC_p (replicate m dt) T' = Inr Ts"
    using t' by (intro Suc.IH)
  then show ?case
    using q d by (simp add: T'_def)
qed

lemma transient_returns_iff:
  assumes "0 < dt" and "0 \<le> fdiv time dt"
  shows "transient_conductor_temperature fdiv I_i I_f dt time mC_p c es imax = Inr Ts \<longleftrightarrow>
           length Ts = nat \<lfloor>fdiv time dt\<rfloor> + 1
           \<and> steady_state_conductor_temperature c I_i es imax = Inr (Ts ! 0)
           \<and> (\<exists>q_s. solar_heat_gain_at c = Inr q_s
                \<and> (\<forall>k<nat \<lfloor>fdiv time dt\<rfloor>.
                      \<exists>q_c. convection_heat_loss_at c (Ts ! k) = Inr q_c \<and> mC_p \<noteq> 0
                        \<and> Ts ! (k + 1) = Ts ! k
                            + (conductor_electrical_resistance_at c (Ts ! k) * I_f ^ 2 + q_s
                                 - q_c - radiated_heat_loss_at c (Ts ! k)) / mC_p * dt))"
    (is "?run = Inr Ts \<longleftrightarrow> ?rhs")
proof -
  define n where "n = nat \<lfloor>fdiv time dt\<rfloor>"
  have tr: "nat (py_trunc (fdiv time dt)) = n"
    using assms(2) by (simp add: py_trunc_def n_def)
  have unfold: "?run = temperature_steps c q_s I_f mC_p (replicate n dt) [T_i]"
    if "steady_state_conductor_temperature c I_i es imax = Inr T_i"
      and "solar_heat_gain_at c = Inr q_s" for T_i q_s
    using that assms(1)
    by (simp add: transient_conductor_temperature_def py_float_div_def tr Let_def)
  show ?thesis
  proof
    assume run: "?run = Inr Ts"
    then obtain T_i where T_i: "steady_state_conductor_temperature c I_i es imax = Inr T_i"
      by (auto simp: transient_conductor_temperature_def and_then_cases)
    with run obtain q_s where q_s: "solar_heat_gain_at c = Inr q_s"
      by (auto simp: transient_conductor_temperature_def and_then_cases)
    from run unfold [OF T_i q_s]
    have steps: "temperature_steps c q_s I_f mC_p (replicate n dt) [T_i] = Inr Ts" by simp
    from temperature_steps_returns [OF steps] have
      len: "length Ts = 1 + n" and tk: "take 1 Ts = [T_i]"
      and st: "\<forall>k<n. \<exists>q_c. convection_heat_loss_at c (Ts ! k) = Inr q_c \<and> mC_p \<noteq> 0
             \<and> Ts ! (1 + k) = Ts ! k
                 + (conductor_electrical_resistance_at c (Ts ! k) * I_f ^ 2 + q_s
                      - q_c - radiated_heat_loss_at c (Ts ! k)) / mC_p * dt"
      by auto
    have "Ts ! 0 = T_i"
      using tk len by (cases Ts) simp_all
    with T_i q_s len st show ?rhs
      unfolding n_def by auto
  next
    assume rhs: ?rhs
    then obtain q_s where q_s: "solar_heat_gain_at c = Inr q_s"
      and st: "\<forall>k<n. \<exists>q_c. convection_heat_loss_at c (Ts ! k) = Inr q_c \<and> mC_p \<noteq> 0
                        \<and> Ts ! (k + 1) = Ts ! k
                            + (conductor_electrical_resistance_at c (Ts ! k) * I_f ^ 2 + q_s
                                 - q_c - radiated_heat_loss_at c (Ts ! k)) / mC_p * dt"
      unfolding n_def by blast
    from rhs have T_i: "steady_state_conductor_temperature c I_i es imax = Inr (Ts ! 0)"
      and len: "length Ts = n + 1"
      unfolding n_def by simp_all
    have tk: "take (length [Ts ! 0]) Ts = [Ts ! 0]"
      using len by (cases Ts) simp_all
    have "temperature_steps c q_s I_f mC_p (replicate n dt) [Ts ! 0] = Inr Ts"
      by (rule temperature_steps_complete) (use len tk st in simp_all)
    then show "?run = Inr Ts"
      using unfold [OF T_i q_s] by simp
  qed
qed

lemma cold_steady_state:
  "steady_state_conductor_temperature cold_conditions 0 5 10 = Inr (- 60.5)"
proof -
  have "steady_state_run cold_conditions 0 5 10 = Inr (- 60.5, 2)"
    by (rule cold_run) simp_all
  then show ?thesis by (simp add: steady_state_conductor_temperature_def)
qed

lemma double_div_rounds_up:
  "double_div_2_4 (8782019273372467 / 2 ^ 51) (5854679515581645 / 2 ^ 52) = 3"
  "\<lfloor>(8782019273372467 / 2 ^ 51) / (5854679515581645 / 2 ^ 52) :: real\<rfloor> = 2"
  by (simp_all add: double_div_2_4_def round_def)

lemma cold_euler_step:
  assumes "T < - 60" "- 400 < T"
  shows "\<exists>q_c. convection_heat_loss_at cold_conditions T = Inr q_c \<and> (500 :: real) \<noteq> 0
      \<and> T + dt / 500 = T + (conductor_electrical_resistance_at cold_conditions T * 100 ^ 2 + 0 - q_c
                 - radiated_heat_loss_at cold_conditions T) / 500 * dt"
  using cold_convection_below [OF assms] by (simp add: cold_resistance cold_radiation)

text \<open>
  With \<open>dt > 0\<close> and \<open>time \<ge> 0\<close> the function need not return a list: with a heat
  capacity of 0 and at least one step, \<open>delta_T\<close> divides by \<open>mC_p\<close> and raises.
\<close>

theorem transient_zero_heat_capacity_counterexample:
  "(0 :: real) < 50 \<and> (0 :: real) \<le> 100
   \<and> steady_state_conductor_temperature cold_conditions 0 5 10 = Inr (- 60.5)
   \<and> transient_conductor_temperature (/) 0 100 50 100 0 cold_conditions 5 10
       = Inl ZeroDivisionError"
proof -
  have q: "convection_heat_loss_at cold_conditions (- 60.5) = Inr 0"
    by (rule cold_convection_below) simp_all
  have "transient_conductor_temperature (/) 0 100 50 100 0 cold_conditions 5 10
      = temperature_steps cold_conditions 0 100 0 (replicate 2 50) [- 60.5]"
    by (simp add: transient_conductor_temperature_def cold_steady_state cold_solar_heat_gain
        py_float_div_def py_trunc_def)
  also have "\<dots> = Inl ZeroDivisionError"
    using q by (simp add: numeral_2_eq_2 delta_T_def py_div_def)
  finally show ?thesis by (simp add: cold_steady_state)
qed

text \<open>
  Claim C7, amended. For \<open>dt > 0\<close> and a non-negative quotient \<open>q\<close>, the value the
  machine computes for \<open>time/dt\<close> (as it is for \<open>time \<ge> 0\<close>),
  \<open>transient_conductor_temperature\<close> returns the list \<open>Ts\<close> exactly when: \<open>Ts\<close> has
  \<open>floor(q) + 1\<close> elements, the steady-state solver returns \<open>Ts[0]\<close> for \<open>I_i\<close>, the solar
  gain \<open>q_s\<close> is computed (once), and for every \<open>k < floor(q)\<close> the convection heat loss
  at \<open>Ts[k]\<close> is computed, \<open>mC_p\<close> is not 0 and \<open>Ts[k+1]\<close> is \<open>Ts[k]\<close> plus the
  forward-Euler increment. In every other case it raises; what it raises is the
  exception of the solver or of the solar gain, or \<open>ZeroDivisionError\<close>. The count is
  that of the computed quotient: the doubles 3.9 and 1.3 have an exact quotient below 3
  and a computed quotient 3.0, and the list has 4 elements.
\<close>

theorem transient_conductor_temperature_euler:
  assumes "0 < dt" and "0 \<le> fdiv time dt"
  shows "(transient_conductor_temperature fdiv I_i I_f dt time mC_p c es imax = Inr Ts \<longleftrightarrow>
           length Ts = nat \<lfloor>fdiv time dt\<rfloor> + 1
           \<and> steady_state_conductor_temperature c I_i es imax = Inr (Ts ! 0)
           \<and> (\<exists>q_s. solar_heat_gain_at c = Inr q_s
                \<and> (\<forall>k<nat \<lfloor>fdiv time dt\<rfloor>.
                      \<exists>q_c. convection_heat_loss_at c (Ts ! k) = Inr q_c \<and> mC_p \<noteq> 0
                        \<and> Ts ! (k + 1) = Ts ! k
                            + (conductor_electrical_resistance_at c (Ts ! k) * I_f ^ 2 + q_s
                                 - q_c - radiated_heat_loss_at c (Ts ! k)) / mC_p * dt)))
       \<and> (transient_conductor_temperature fdiv I_i I_f dt time mC_p c es imax = Inl e \<longrightarrow>
            steady_state_conductor_temperature c I_i es imax = Inl e
              \<or> solar_heat_gain_at c = Inl e \<or> e = ZeroDivisionError)"
  using transient_returns_iff
      [where fdiv = fdiv and time = time and dt = dt and I_i = I_i and I_f = I_f
         and mC_p = mC_p and c = c and es = es and imax = imax and Ts = Ts, OF assms]
    transient_conductor_temperature_error [of fdiv I_i I_f dt time mC_p c es imax e]
  by (intro conjI impI) assumption+

theorem transient_conductor_temperature_euler_witness:
  "(0 :: real) < 50 \<and> (0 :: real) \<le> 100 / 50
   \<and> steady_state_conductor_temperature cold_conditions 0 5 10 = Inr (- 60.5)
   \<and> solar_heat_gain_at cold_conditions = Inr 0
   \<and> transient_conductor_temperature (/) 0 100 50 100 500 cold_conditions 5 10
       = Inr [- 60.5, - 60.4, - 60.3]
   \<and> (0 :: real) < 5854679515581645 / 2 ^ 52
   \<and> double_div_2_4 (8782019273372467 / 2 ^ 51) (5854679515581645 / 2 ^ 52) = 3
   \<and> transient_conductor_temperature double_div_2_4 0 100 (5854679515581645 / 2 ^ 52)
         (8782019273372467 / 2 ^ 51) 500 cold_conditions 5 10
       = Inr [- 60.5,
              - 60.5 + 5854679515581645 / 2 ^ 52 / 500,
              - 60.5 + 5854679515581645 / 2 ^ 52 / 500 + 5854679515581645 / 2 ^ 52 / 500,
              - 60.5 + 5854679515581645 / 2 ^ 52 / 500 + 5854679515581645 / 2 ^ 52 / 500
                + 5854679515581645 / 2 ^ 52 / 500]"
proof -
  have p: "(0 :: real) < 50" "(0 :: real) \<le> 100 / 50" by simp_all
  have n: "nat \<lfloor>100 / 50 :: real\<rfloor> = 2" by simp
  have q0: "convection_heat_loss_at cold_conditions (- 60.5) = Inr 0"
    and q1: "convection_heat_loss_at cold_conditions (- 60.4) = Inr 0"
    by (rule cold_convection_below, simp, simp)+
  have step: "\<exists>q_c. convection_heat_loss_at cold_conditions ([- 60.5, - 60.4, - 60.3] ! k) = Inr q_c
        \<and> (500 :: real) \<noteq> 0
        \<and> [- 60.5, - 60.4, - 60.3] ! (k + 1) = [- 60.5, - 60.4, - 60.3] ! k
            + (conductor_electrical_resistance_at cold_conditions ([- 60.5, - 60.4, - 60.3] ! k)
                 * 100 ^ 2 + 0 - q_c
                 - radiated_heat_loss_at cold_conditions ([- 60.5, - 60.4, - 60.3] ! k)) / 500 * 50"
    if "k < 2" for k :: nat
  proof -
    from that consider "k = 0" | "k = 1" by linarith
    then show ?thesis
    proof cases
      case 1
      then show ?thesis using q0 by (simp add: cold_resistance cold_radiation)
    next
      case 2
      then show ?thesis using q1 by (simp add: cold_resistance cold_radiation)
    qed
  qed
  have a: "transient_conductor_temperature (/) 0 100 50 100 500 cold_conditions 5 10
       = Inr [- 60.5, - 60.4, - 60.3]"
    using transient_conductor_temperature_euler
      [where fdiv = "(/)" and time = 100 and dt = 50 and I_i = 0 and I_f = 100
         and mC_p = 500 and c = cold_conditions and es = 5 and imax = 10
         and Ts = "[- 60.5, - 60.4, - 60.3]", OF p]
      cold_steady_state cold_solar_heat_gain step
    unfolding n by (simp del: One_nat_def)
  define d :: real where "d = 5854679515581645 / 2 ^ 52"
  define t :: real where "t = 8782019273372467 / 2 ^ 51"
  define Ts where "Ts = [- 60.5, - 60.5 + d / 500, - 60.5 + d / 500 + d / 500,
      - 60.5 + d / 500 + d / 500 + d / 500]"
  have d: "0 < d" "d < 2" by (simp_all add: d_def)
  have r: "double_div_2_4 t d = 3"
    unfolding t_def d_def by (rule double_div_rounds_up(1))
  have p': "0 < d" "0 \<le> double_div_2_4 t d" using d r by simp_all
  have n': "nat \<lfloor>double_div_2_4 t d\<rfloor> = 3" using r by simp
  have step': "\<exists>q_c. convection_heat_loss_at cold_conditions (Ts ! k) = Inr q_c
        \<and> (500 :: real) \<noteq> 0
        \<and> Ts ! (k + 1) = Ts ! k
            + (conductor_electrical_resistance_at cold_conditions (Ts ! k) * 100 ^ 2 + 0 - q_c
                 - radiated_heat_loss_at cold_conditions (Ts ! k)) / 500 * d"
    if "k < 3" for k :: nat
  proof -
    from that consider "k = 0" | "k = 1" | "k = 2" by linarith
    then show ?thesis
    proof cases
      case 1
      then show ?thesis
        using cold_euler_step [of "- 60.5" d] by (simp add: Ts_def)
    next
      case 2
      then show ?thesis
        using cold_euler_step [of "- 60.5 + d / 500" d] d by (simp add: Ts_def)
    next
      case 3
      then show ?thesis
        using cold_euler_step [of "- 60.5 + d / 500 + d / 500" d] d
        by (simp add: Ts_def numeral_2_eq_2)
    qed
  qed
  have "transient_conductor_temperature double_div_2_4 0 100 d t 500 cold_conditions 5 10 = Inr Ts"
    using transient_conductor_temperature_euler
      [where fdiv = double_div_2_4 and time = t and dt = d and I_i = 0 and I_f = 100
         and mC_p = 500 and c = cold_conditions and es = 5 and imax = 10
         and Ts = Ts, OF p']
      cold_steady_state cold_solar_heat_gain step'
    unfolding n' by (simp add: Ts_def del: One_nat_def)
  then have b: "transient_conductor_temperature double_div_2_4 0 100 (5854679515581645 / 2 ^ 52)
         (8782019273372467 / 2 ^ 51) 500 cold_conditions 5 10
       = Inr [- 60.5,
              - 60.5 + 5854679515581645 / 2 ^ 52 / 500,
              - 60.5 + 5854679515581645 / 2 ^ 52 / 500 + 5854679515581645 / 2 ^ 52 / 500,
              - 60.5 + 5854679515581645 / 2 ^ 52 / 500 + 5854679515581645 / 2 ^ 52 / 500
                + 5854679515581645 / 2 ^ 52 / 500]"
    unfolding Ts_def d_def t_def .
  have c: "(0 :: real) < 5854679515581645 / 2 ^ 52" by simp
  from p cold_steady_state cold_solar_heat_gain a b c double_div_rounds_up(1)
  show ?thesis by (intro conjI)
qed

subsection \<open>Transient settling time\<close>

text \<open>
  The \<open>while\<close> loop is not entered when the target is below the start. When it is
  entered with a step that \<open>T += dT\<close> absorbs, \<open>T\<close> never changes and the loop runs for
  ever, provided the computation of \<open>dt\<close> does not raise. The running time is not
  read by the guard, so how \<open>Time += dt\<close> is rounded plays no part.
\<close>

lemma settling_loop_above_target:
  assumes "T_f < T"
  shows "settling_loop fadd c q_s I_f mC_p dT T_f T Time = Some (Inr Time)"
  using assms by (subst settling_loop.simps) simp

lemma settling_loop_absorbed_step:
  assumes "settling_loop fadd c q_s I_f mC_p dT T_f T Time = Some r"
  shows "\<not> (fadd T dT = T \<and> T \<le> T_f \<and> (\<exists>dt. settling_step c q_s I_f mC_p dT T = Inr dt))"
proof (rule settling_loop.raw_induct
    [where P = "\<lambda>fadd c q_s I_f mC_p dT T_f T Time r.
        \<not> (fadd T dT = T \<and> T \<le> T_f \<and> (\<exists>dt. settling_step c q_s I_f mC_p dT T = Inr dt))",
     OF _ assms])
  fix f :: "(real \<Rightarrow> real \<Rightarrow> real) \<Rightarrow> conditions \<Rightarrow> real \<Rightarrow> real \<Rightarrow> real \<Rightarrow> real \<Rightarrow> real \<Rightarrow> real \<Rightarrow> real
      \<Rightarrow> (error + real) option"
  fix fadd :: "real \<Rightarrow> real \<Rightarrow> real"
  fix c q_s I_f mC_p dT T_f T Time r
  assume ih: "\<And>fadd c q_s I_f mC_p dT T_f T Time r.
      f fadd c q_s I_f mC_p dT T_f T Time = Some r \<Longrightarrow>
      \<not> (fadd T dT = T \<and> T \<le> T_f \<and> (\<exists>dt. settling_step c q_s I_f mC_p dT T = Inr dt))"
  assume body: "(if T \<le> T_f
      then case settling_step c q_s I_f mC_p dT T of Inl e \<Rightarrow> Some (Inl e)
           | Inr dt \<Rightarrow> f fadd c q_s I_f mC_p dT T_f (fadd T dT) (fadd Time dt)
      else Some (Inr Time)) = Some r"
  show "\<not> (fadd T dT = T \<and> T \<le> T_f \<and> (\<exists>dt. settling_step c q_s I_f mC_p dT T = Inr dt))"
  proof
    assume a: "fadd T dT = T \<and> T \<le> T_f \<and> (\<exists>dt. settling_step c q_s I_f mC_p dT T = Inr dt)"
    then obtain dt where dt: "settling_step c q_s I_f mC_p dT T = Inr dt" by blast
    with a body have "f fadd c q_s I_f mC_p dT T_f T (fadd Time dt) = Some r" by simp
    from ih [OF this] a show False by blast
  qed
qed

lemma settling_loop_absorbed_step_diverges:
  assumes "fadd T dT = T" "T \<le> T_f" "settling_step c q_s I_f mC_p dT T = Inr dt"
  shows "settling_loop fadd c q_s I_f mC_p dT T_f T Time = None"
proof (cases "settling_loop fadd c q_s I_f mC_p dT T_f T Time")
  case None
  then show ?thesis .
next
  case (Some r)
  from settling_loop_absorbed_step [OF this] assms show ?thesis by blast
qed

lemma zero_resistance_settling_step:
  assumes "p_T_a c = 40" "p_R_0 c = 0" "p_H_e c = 0" "p_D_o c = 0.01" "p_epsilon c = 0.5"
    and "mC_p \<noteq> 0"
  shows "\<exists>dt. settling_step c 0 I_f mC_p dT 45 = Inr dt"
proof -
  obtain q where q: "convection_heat_loss_at c 45 = Inr q"
    using example_convection_returns [OF assms(1), of 45] by auto
  have d: "air_density 0 (temperature_boundary_layer 45 40) = Inr (1.293 / (1 + 0.00367 * 42.5))"
    by (simp add: air_density_cases temperature_boundary_layer_def)
  have q': "convection_heat_loss 45 40 0 0.01 (p_phi c) (p_V_w c) = Inr q"
    using q by (simp add: convection_heat_loss_at_def assms)
  have "0 \<le> q"
    by (rule convection_heat_loss_nonneg [OF q' d]) simp_all
  moreover have "0 < radiated_heat_loss_at c 45"
  proof -
    have "((40 + 273) / 100) ^ 4 < ((45 + 273) / 100 :: real) ^ 4"
      by (intro power_strict_mono) simp_all
    then show ?thesis
      by (simp add: radiated_heat_loss_at_def radiated_heat_loss_def assms)
  qed
  ultimately have "0 - q - radiated_heat_loss_at c 45 \<noteq> 0" by simp
  then show ?thesis
    using q assms(2,6)
    by (simp add: settling_step_def delta_t_def py_div_def conductor_electrical_resistance_at_def
        conductor_electrical_resistance_def)
qed

lemma transient_settling_time_cooling:
  assumes "steady_state_conductor_temperature c I_i es imax = Inr T_i"
    and "steady_state_conductor_temperature c I_f es imax = Inr T_f"
    and "solar_heat_gain_at c = Inr q_s" and "T_f < T_i"
  shows "transient_settling_time fadd I_i I_f dT mC_p c es imax = Some (Inr 0)"
  using assms by (simp add: transient_settling_time_def settling_loop_above_target)

lemma double_add_absorbs: "double_add_32_64 45 (1 / 2 ^ 50) = 45"
  by (simp add: double_add_32_64_def round_def)

lemma cold_single_pass:
  "\<exists>g>0. \<forall>I_ss es. steady_state_conductor_temperature cold_conditions I_ss es 1
      = Inr (- 60.5 + 5.5 * I_ss / g)"
proof -
  obtain q where q: "convection_heat_loss_at cold_conditions (- 55) = Inr q" "0 < q"
    using cold_convection_above by blast
  have q2: "convection_heat_loss_at cold_conditions (- 55 * (1 + secant_delta)) = Inr 0"
    by (rule cold_convection_below) (simp_all add: secant_delta_def)
  define g where "g = steady_state_thermal_rating q 0 0 0.0001"
  have g: "0 < g"
    using q(2) by (simp add: g_def steady_state_thermal_rating_def thermal_rating_try_cases)
  have "steady_state_conductor_temperature cold_conditions I_ss es 1
      = Inr (- 60.5 + 5.5 * I_ss / g)" for I_ss es
  proof -
    have n: "- 55 - (secant_delta * - 55 * (g - I_ss)) / ((0 - I_ss) - (g - I_ss))
        = - 60.5 + 5.5 * I_ss / g"
      using g by (simp add: secant_delta_def field_simps)
    have d: "(0 - I_ss) - (g - I_ss) \<noteq> 0" using g by simp
    have "\<exists>ea'. secant_iteration cold_conditions 0 I_ss (- 55) 100
        = Inr (- 60.5 + 5.5 * I_ss / g, ea')"
      unfolding secant_iteration_def Let_def q(1) q2 and_then_Inr cold_resistance cold_radiation
        rating_zero_flux g_def [symmetric] n [symmetric]
      using d by simp
    then obtain ea' where "secant_iteration cold_conditions 0 I_ss (- 55) 100
        = Inr (- 60.5 + 5.5 * I_ss / g, ea')" by blast
    then show ?thesis
      by (simp add: steady_state_conductor_temperature_def steady_state_run_def
          cold_solar_heat_gain cold_fields)
  qed
  with g show ?thesis by blast
qed

text \<open>
  The specification has the loop ill-defined, possibly endless, when the final
  temperature is below the initial one. There the guard \<open>T <= T_f\<close> is false on entry
  and the time 0 is returned at once: so for the loop started above its target, and so
  for \<open>transient_settling_time\<close> in the cold scenario when the current drops from 50
  to 0 (one solver pass each).
\<close>

theorem settling_loop_cooling_counterexample:
  "settling_loop (+) example_conditions 0 300 500 1 40 50 0 = Some (Inr 0)
   \<and> steady_state_conductor_temperature cold_conditions 0 5 1 = Inr (- 60.5)
   \<and> \<not> isl (steady_state_conductor_temperature cold_conditions 50 5 1)
   \<and> - 60.5 < projr (steady_state_conductor_temperature cold_conditions 50 5 1)
   \<and> transient_settling_time (+) 50 0 1 500 cold_conditions 5 1 = Some (Inr 0)"
proof -
  obtain g where g: "0 < g"
    and s: "\<And>I_ss es. steady_state_conductor_temperature cold_conditions I_ss es 1
        = Inr (- 60.5 + 5.5 * I_ss / g)"
    using cold_single_pass by blast
  have a: "steady_state_conductor_temperature cold_conditions 0 5 1 = Inr (- 60.5)"
    using s [of 0 5] by simp
  have b: "steady_state_conductor_temperature cold_conditions 50 5 1 = Inr (- 60.5 + 5.5 * 50 / g)"
    by (rule s)
  have lt: "- 60.5 < - 60.5 + 5.5 * 50 / g" using g by simp
  have "transient_settling_time (+) 50 0 1 500 cold_conditions 5 1 = Some (Inr 0)"
    by (rule transient_settling_time_cooling [OF b a cold_solar_heat_gain lt])
  moreover have "settling_loop (+) example_conditions 0 300 500 1 40 50 0 = Some (Inr 0)"
    by (rule settling_loop_above_target) simp
  ultimately show ?thesis using a lt by (simp add: b)
qed

text \<open>
  Claim C5, amended. When \<open>T_final < T_initial\<close> the loop body never runs and
  \<open>transient_settling_time\<close> returns 0. The loop has no iteration guard, and it runs
  for ever when it is entered (\<open>T \<le> T_final\<close>) with a step that \<open>T += dT\<close> leaves
  without effect (\<open>dT = 0\<close>, or in doubles a \<open>dT\<close> below half the spacing of the
  doubles at \<open>T\<close>) and the computation of \<open>dt\<close> does not raise.
\<close>

theorem settling_loop_direction:
  "(T_f < T_i \<longrightarrow> settling_loop fadd c q_s I_f mC_p dT T_f T_i 0 = Some (Inr 0))
   \<and> (steady_state_conductor_temperature c I_i es imax = Inr T_i
        \<and> steady_state_conductor_temperature c I_f es imax = Inr T_f
        \<and> solar_heat_gain_at c = Inr q_s \<and> T_f < T_i
        \<longrightarrow> transient_settling_time fadd I_i I_f dT mC_p c es imax = Some (Inr 0))
   \<and> (fadd T_i dT = T_i \<and> T_i \<le> T_f \<and> settling_step c q_s I_f mC_p dT T_i = Inr dt
        \<longrightarrow> settling_loop fadd c q_s I_f mC_p dT T_f T_i Time = None)"
proof (intro conjI impI)
  assume "T_f < T_i"
  then show "settling_loop fadd c q_s I_f mC_p dT T_f T_i 0 = Some (Inr 0)"
    by (rule settling_loop_above_target)
next
  assume "steady_state_conductor_temperature c I_i es imax = Inr T_i
        \<and> steady_state_conductor_temperature c I_f es imax = Inr T_f
        \<and> solar_heat_gain_at c = Inr q_s \<and> T_f < T_i"
  then show "transient_settling_time fadd I_i I_f dT mC_p c es imax = Some (Inr 0)"
    by (elim conjE) (rule transient_settling_time_cooling)
next
  assume "fadd T_i dT = T_i \<and> T_i \<le> T_f \<and> settling_step c q_s I_f mC_p dT T_i = Inr dt"
  then show "settling_loop fadd c q_s I_f mC_p dT T_f T_i Time = None"
    by (elim conjE) (rule settling_loop_absorbed_step_diverges)
qed

theorem settling_loop_direction_witness:
  "settling_loop (+) (example_conditions\<lparr>p_R_0 := 0\<rparr>) 0 300 500 1 45 49.5 0 = Some (Inr 0)
   \<and> (\<exists>T_i. steady_state_conductor_temperature cold_conditions 50 5 1 = Inr T_i
         \<and> steady_state_conductor_temperature cold_conditions 0 5 1 = Inr (- 60.5)
         \<and> solar_heat_gain_at cold_conditions = Inr 0 \<and> - 60.5 < T_i)
   \<and> transient_settling_time double_add_32_64 50 0 1 500 cold_conditions 5 1 = Some (Inr 0)
   \<and> double_add_32_64 45 (1 / 2 ^ 50) = 45
   \<and> (\<exists>dt. settling_step (example_conditions\<lparr>p_R_0 := 0\<rparr>) 0 300 500 (1 / 2 ^ 50) 45 = Inr dt)
   \<and> settling_loop double_add_32_64 (example_conditions\<lparr>p_R_0 := 0\<rparr>) 0 300 500 (1 / 2 ^ 50) 50 45 0
       = None
   \<and> (\<exists>dt. settling_step (example_conditions\<lparr>p_R_0 := 0\<rparr>) 0 300 500 0 45 = Inr dt)
   \<and> settling_loop (+) (example_conditions\<lparr>p_R_0 := 0\<rparr>) 0 300 500 0 50 45 0 = None"
proof -
  define c where "c = example_conditions\<lparr>p_R_0 := 0\<rparr>"
  have f: "p_T_a c = 40" "p_R_0 c = 0" "p_H_e c = 0" "p_D_o c = 0.01" "p_epsilon c = 0.5"
    by (simp_all add: c_def example_conditions_def)
  obtain dt where dt: "settling_step c 0 300 500 (1 / 2 ^ 50) 45 = Inr dt"
    using zero_resistance_settling_step [OF f, of 500 300 "1 / 2 ^ 50"] by auto
  obtain dt0 where dt0: "settling_step c 0 300 500 0 45 = Inr dt0"
    using zero_resistance_settling_step [OF f, of 500 300 0] by auto
  obtain g where g: "0 < g"
    and s: "\<And>I_ss es. steady_state_conductor_temperature cold_conditions I_ss es 1
        = Inr (- 60.5 + 5.5 * I_ss / g)"
    using cold_single_pass by blast
  have sf: "steady_state_conductor_temperature cold_conditions 0 5 1 = Inr (- 60.5)"
    using s [of 0 5] by simp
  have si: "steady_state_conductor_temperature cold_conditions 50 5 1 = Inr (- 60.5 + 5.5 * 50 / g)"
    by (rule s)
  have lt: "- 60.5 < - 60.5 + 5.5 * 50 / g" using g by simp
  have a: "(45 :: real) < 49.5" and e: "(45 :: real) \<le> 50" and z: "(45 :: real) + 0 = 45"
    by simp_all
  have 1: "settling_loop (+) c 0 300 500 1 45 49.5 0 = Some (Inr 0)"
    by (rule mp [OF conjunct1 [OF settling_loop_direction]]) (rule a)
  have 2: "transient_settling_time double_add_32_64 50 0 1 500 cold_conditions 5 1 = Some (Inr 0)"
  proof (rule mp [OF conjunct1 [OF conjunct2 [OF settling_loop_direction]]], intro conjI)
    show "steady_state_conductor_temperature cold_conditions 50 5 1 = Inr (- 60.5 + 5.5 * 50 / g)"
      by (rule si)
    show "steady_state_conductor_temperature cold_conditions 0 5 1 = Inr (- 60.5)" by (rule sf)
    show "solar_heat_gain_at cold_conditions = Inr 0" by (rule cold_solar_heat_gain)
    show "- 60.5 < - 60.5 + 5.5 * 50 / g" by (rule lt)
  qed
  have 3: "settling_loop double_add_32_64 c 0 300 500 (1 / 2 ^ 50) 50 45 0 = None"
  proof (rule mp [OF conjunct2 [OF conjunct2 [OF settling_loop_direction]]], intro conjI)
    show "double_add_32_64 45 (1 / 2 ^ 50) = 45" by (rule double_add_absorbs)
    show "(45 :: real) \<le> 50" by (rule e)
    show "settling_step c 0 300 500 (1 / 2 ^ 50) 45 = Inr dt" by (rule dt)
  qed
  have 4: "settling_loop (+) c 0 300 500 0 50 45 0 = None"
  proof (rule mp [OF conjunct2 [OF conjunct2 [OF settling_loop_direction]]], intro conjI)
    show "(45 :: real) + 0 = 45" by (rule z)
    show "(45 :: real) \<le> 50" by (rule e)
    show "settling_step c 0 300 500 0 45 = Inr dt0" by (rule dt0)
  qed
  from 1 2 3 4 dt dt0 si sf lt cold_solar_heat_gain double_add_absorbs
  show ?thesis unfolding c_def by blast
qed

end
